theory Spec2Isabelle
  imports Main "HOL-Library.Sublist"
begin

section \<open>Python values\<close>

text \<open>
  The bot is one Python module, \<^verbatim>\<open>birthday_bot.py\<close>. Text is modelled as \<open>string\<close>, the
  UTF-8 bytes of the Python \<open>str\<close>: every pattern the module searches for
  (\<^verbatim>\<open>{name}\<close>, braces, ASCII white space) is ASCII, and an ASCII byte never occurs inside a
  multi-byte UTF-8 sequence, so searching and replacing on bytes agrees with Python's
  searching and replacing on code points.

  Exceptions are values: a function that can raise returns \<open>pyexc + 'a\<close>.
  \<open>OutOfBoundsDatetime\<close> is the exception of pandas for a date that a \<^verbatim>\<open>Timestamp\<close> cannot
  hold; \<open>ExternalError\<close> stands for whatever else an external library (requests, openai,
  pytz, pandas) raises.
\<close>

datatype pyexc =
  AttributeError | ValueError | IndexError | KeyError | OutOfBoundsDatetime | ExternalError

text \<open>
  A spreadsheet cell as pandas hands it to the loop of \<^verbatim>\<open>main\<close>: \<open>CNone\<close> is the default
  of \<^verbatim>\<open>row.get(col, None)\<close> for a column the sheet does not have, \<open>CNaN\<close> an empty cell
  (float nan), \<open>CStr\<close> a text cell, and \<open>CObj b s\<close> any other object (a number, a
  timestamp), of truth value \<open>b\<close> and with \<open>str()\<close> equal to \<open>s\<close>.
\<close>

datatype cell = CNone | CNaN | CStr string | CObj bool string

fun truthy :: "cell \<Rightarrow> bool" where
  "truthy CNone = False"
| "truthy CNaN = True"
| "truthy (CStr s) = (s \<noteq> [])"
| "truthy (CObj b s) = b"

fun py_str :: "cell \<Rightarrow> string" where
  "py_str CNone = ''None''"
| "py_str CNaN = ''nan''"
| "py_str (CStr s) = s"
| "py_str (CObj b s) = s"

subsection \<open>\<^verbatim>\<open>str.strip\<close>\<close>

text \<open>
  The characters Python's \<^verbatim>\<open>str.isspace\<close> accepts, each as its UTF-8 byte sequence:
  U+0009..U+000D, U+001C..U+0020, U+0085, U+00A0, U+1680, U+2000..U+200A, U+2028, U+2029,
  U+202F, U+205F and U+3000.
\<close>

definition py_whitespace :: "string list" where
  "py_whitespace =
     map (\<lambda>c. [c]) [CHR 0x09, CHR 0x0A, CHR 0x0B, CHR 0x0C, CHR 0x0D,
                    CHR 0x1C, CHR 0x1D, CHR 0x1E, CHR 0x1F, CHR 0x20] @
     [[CHR 0xC2, CHR 0x85], [CHR 0xC2, CHR 0xA0], [CHR 0xE1, CHR 0x9A, CHR 0x80]] @
     map (\<lambda>c. [CHR 0xE2, CHR 0x80, c])
       [CHR 0x80, CHR 0x81, CHR 0x82, CHR 0x83, CHR 0x84, CHR 0x85, CHR 0x86, CHR 0x87,
        CHR 0x88, CHR 0x89, CHR 0x8A, CHR 0xA8, CHR 0xA9, CHR 0xAF] @
     [[CHR 0xE2, CHR 0x81, CHR 0x9F], [CHR 0xE3, CHR 0x80, CHR 0x80]]"

function strip_front :: "string list \<Rightarrow> string \<Rightarrow> string" where
  "strip_front ws s =
     (case find (\<lambda>w. w \<noteq> [] \<and> prefix w s) ws of
        None \<Rightarrow> s
      | Some w \<Rightarrow> strip_front ws (drop (length w) s))"
  by pat_completeness auto
termination
proof (relation "measure (\<lambda>(ws, s). length s)")
  show "wf (measure (\<lambda>(ws, s). length s))" by simp
next
  fix ws :: "string list" and s w :: string
  assume "find (\<lambda>w. w \<noteq> [] \<and> prefix w s) ws = Some w"
  then have "w \<noteq> []" and "prefix w s"
    by (auto simp: find_Some_iff)
  then have "s \<noteq> []" by auto
  with \<open>w \<noteq> []\<close> show "((ws, drop (length w) s), (ws, s)) \<in> measure (\<lambda>(ws, s). length s)"
    by simp
qed

definition py_strip :: "string \<Rightarrow> string" where
  "py_strip s = rev (strip_front (map rev py_whitespace) (rev (strip_front py_whitespace s)))"

subsection \<open>\<^verbatim>\<open>str.replace\<close>\<close>

text \<open>
  \<^verbatim>\<open>s.replace(old, new)\<close>: the non-overlapping occurrences of \<open>old\<close>, found from the
  left, each become \<open>new\<close>. (For an empty \<open>old\<close> Python puts \<open>new\<close> before every
  character and at the end.)
\<close>

function py_replace :: "string \<Rightarrow> string \<Rightarrow> string \<Rightarrow> string" where
  "py_replace old new s =
     (if old = [] then concat (map (\<lambda>c. new @ [c]) s) @ new
      else if s = [] then []
      else if prefix old s then new @ py_replace old new (drop (length old) s)
      else hd s # py_replace old new (tl s))"
  by pat_completeness auto
termination
  by (relation "measure (\<lambda>(old, new, s). length s)") auto

subsection \<open>\<^verbatim>\<open>str.format\<close>\<close>

text \<open>
  \<^verbatim>\<open>t.format(name=name)\<close> scans the format string from the left, as CPython's
  \<^verbatim>\<open>MarkupIterator_next\<close> and \<^verbatim>\<open>parse_field\<close> do: literal text is copied, \<^verbatim>\<open>{{\<close> and \<^verbatim>\<open>}}\<close>
  are the escaped braces, a single \<^verbatim>\<open>}\<close> and a \<^verbatim>\<open>{\<close> that the string ends on are
  \<open>ValueError\<close>s, and any other \<^verbatim>\<open>{\<close> opens a replacement field, made of a field name,
  an optional conversion after \<^verbatim>\<open>!\<close> and an optional format specification after \<^verbatim>\<open>:\<close>.
\<close>

datatype field = Field string "char option" "string option"

text \<open>
  The field name runs to the first \<^verbatim>\<open>}\<close>, \<^verbatim>\<open>:\<close> or \<^verbatim>\<open>!\<close>; a \<^verbatim>\<open>{\<close> inside it is an error,
  and after a \<^verbatim>\<open>[\<close> everything up to the next \<^verbatim>\<open>]\<close> belongs to the name. The result is
  the name, the character that ended it and the rest of the input.
\<close>

function scan_name :: "string \<Rightarrow> string \<Rightarrow> pyexc + (string \<times> char \<times> string)" where
  "scan_name acc [] = Inl ValueError"
| "scan_name acc (c # cs) =
     (if c = CHR ''{'' then Inl ValueError
      else if c = CHR ''['' then
        scan_name (acc @ c # takeWhile (\<lambda>x. x \<noteq> CHR '']'') cs) (dropWhile (\<lambda>x. x \<noteq> CHR '']'') cs)
      else if c = CHR ''}'' \<or> c = CHR '':'' \<or> c = CHR ''!'' then Inr (acc, c, cs)
      else scan_name (acc @ [c]) cs)"
  by pat_completeness auto
termination
  by (relation "measure (\<lambda>(acc, s). length s)") (auto simp: length_dropWhile_le less_Suc_eq_le)

text \<open>
  The format specification runs to the brace that closes the field; braces nested in it
  are counted (\<open>n\<close> is the number of braces still open inside the specification).
\<close>

fun scan_spec :: "nat \<Rightarrow> string \<Rightarrow> string \<Rightarrow> pyexc + (string \<times> string)" where
  "scan_spec n acc [] = Inl ValueError"
| "scan_spec n acc (c # cs) =
     (if c = CHR ''{'' then scan_spec (Suc n) (acc @ [c]) cs
      else if c = CHR ''}'' then
        (if n = 0 then Inr (acc, cs) else scan_spec (n - 1) (acc @ [c]) cs)
      else scan_spec n (acc @ [c]) cs)"

definition parse_spec :: "string \<Rightarrow> char option \<Rightarrow> string \<Rightarrow> pyexc + (field \<times> string)" where
  "parse_spec nm cv s =
     (case scan_spec 0 [] s of
        Inl e \<Rightarrow> Inl e
      | Inr (sp, rest) \<Rightarrow> Inr (Field nm cv (Some sp), rest))"

definition parse_field :: "string \<Rightarrow> pyexc + (field \<times> string)" where
  "parse_field s =
     (case scan_name [] s of
        Inl e \<Rightarrow> Inl e
      | Inr (nm, c, rest) \<Rightarrow>
          if c = CHR ''}'' then Inr (Field nm None None, rest)
          else if c = CHR ''!'' then
            (case rest of
               [] \<Rightarrow> Inl ValueError
             | v # r1 \<Rightarrow>
                 (case r1 of
                    [] \<Rightarrow> parse_spec nm (Some v) []
                  | d # r2 \<Rightarrow>
                      if d = CHR ''}'' then Inr (Field nm (Some v) None, r2)
                      else if d \<noteq> CHR '':'' then Inl ValueError
                      else parse_spec nm (Some v) r2))
          else parse_spec nm None rest)"

text \<open>
  The only argument of the call is the keyword \<open>name\<close>. The plain field \<^verbatim>\<open>{name}\<close> is
  its value; the empty field \<^verbatim>\<open>{}\<close> is the first positional argument, which the call
  does not have. What Python makes of any other field (another key, an attribute or an
  index of the name, a conversion, a format specification) is not modelled: it is the
  parameter \<open>other\<close>.
\<close>

definition render_field :: "(field \<Rightarrow> pyexc + string) \<Rightarrow> string \<Rightarrow> field \<Rightarrow> pyexc + string" where
  "render_field other name f =
     (if f = Field ''name'' None None then Inr name
      else if f = Field [] None None then Inl IndexError
      else other f)"

definition emit :: "string \<Rightarrow> pyexc + string \<Rightarrow> pyexc + string" where
  "emit s r = (case r of Inl e \<Rightarrow> Inl e | Inr t \<Rightarrow> Inr (s @ t))"

lemma scan_name_shorter: "scan_name acc s = Inr (nm, c, rest) \<Longrightarrow> length rest < length s"
proof (induction acc s rule: scan_name.induct)
  case (1 acc)
  then show ?case by simp
next
  case (2 acc c cs)
  show ?case
  proof (cases "c = CHR ''{''")
    case True
    with 2 show ?thesis by simp
  next
    case notopen: False
    show ?thesis
    proof (cases "c = CHR ''[''")
      case True
      with 2 notopen
      have "length rest < length (dropWhile (\<lambda>x. x \<noteq> CHR '']'') cs)"
        by simp
      also have "\<dots> \<le> length cs" by (rule length_dropWhile_le)
      finally show ?thesis by simp
    next
      case False
      with 2 notopen show ?thesis
        by (cases "c = CHR ''}'' \<or> c = CHR '':'' \<or> c = CHR ''!''") (auto simp: less_Suc_eq)
    qed
  qed
qed

lemma scan_spec_shorter: "scan_spec n acc s = Inr (sp, rest) \<Longrightarrow> length rest < length s"
  by (induction n acc s rule: scan_spec.induct) (auto simp: less_Suc_eq split: if_splits)

lemma parse_spec_shorter: "parse_spec nm cv s = Inr (f, rest) \<Longrightarrow> length rest < length s"
  by (auto simp: parse_spec_def split: sum.splits dest: scan_spec_shorter)

lemma parse_field_shorter: "parse_field s = Inr (f, rest) \<Longrightarrow> length rest < length s"
  by (auto simp: parse_field_def split: sum.splits if_splits list.splits
      dest!: scan_name_shorter parse_spec_shorter)

function py_format :: "(field \<Rightarrow> pyexc + string) \<Rightarrow> string \<Rightarrow> string \<Rightarrow> pyexc + string" where
  "py_format other name [] = Inr []"
| "py_format other name (c # cs) =
     (if c = CHR ''{'' then
        (if cs = [] then Inl ValueError
         else if hd cs = CHR ''{'' then emit ''{'' (py_format other name (tl cs))
         else
           (case parse_field cs of
              Inl e \<Rightarrow> Inl e
            | Inr fr \<Rightarrow>
                (case render_field other name (fst fr) of
                   Inl e \<Rightarrow> Inl e
                 | Inr v \<Rightarrow> emit v (py_format other name (snd fr)))))
      else if c = CHR ''}'' then
        (if cs = [] then Inl ValueError
         else if hd cs = CHR ''}'' then emit ''}'' (py_format other name (tl cs))
         else Inl ValueError)
      else emit [c] (py_format other name cs))"
  by pat_completeness auto
termination
proof (relation "measure (\<lambda>(other, name, s). length s)")
  show "wf (measure (\<lambda>(other, name, s). length s))" by simp
next
  fix other :: "field \<Rightarrow> pyexc + string" and name cs :: string and c :: char and fr v
  assume "parse_field cs = Inr fr"
  then have "length (snd fr) < length cs"
    by (cases fr) (auto dest: parse_field_shorter)
  then show "((other, name, snd fr), (other, name, c # cs)) \<in> measure (\<lambda>(other, name, s). length s)"
    by simp
qed auto

section \<open>The dedup store\<close>

text \<open>
  The table \<^verbatim>\<open>sent(phone, year, sent_at, message)\<close> is the list of its rows, so that the
  model can tell one row for a key from two. \<^verbatim>\<open>init_db\<close> creates the table only when it
  does not exist and changes no row. \<^verbatim>\<open>INSERT OR REPLACE\<close> deletes the rows that clash
  with the new row on the primary key \<^verbatim>\<open>(phone, year)\<close> and then inserts it. The current
  time that \<^verbatim>\<open>record_send\<close> reads is its argument \<open>utcnow\<close>.
\<close>

type_synonym sent_row = "string \<times> int \<times> string \<times> string"

type_synonym store = "sent_row list"

definition init_db :: "store \<Rightarrow> store" where
  "init_db conn = conn"

definition select_sent :: "store \<Rightarrow> string \<Rightarrow> int \<Rightarrow> sent_row list" where
  "select_sent conn phone y = filter (\<lambda>r. fst r = phone \<and> fst (snd r) = y) conn"

definition already_sent :: "store \<Rightarrow> string \<Rightarrow> int \<Rightarrow> bool" where
  "already_sent conn phone y = (select_sent conn phone y \<noteq> [])"

definition record_send :: "store \<Rightarrow> string \<Rightarrow> int \<Rightarrow> string \<Rightarrow> string \<Rightarrow> store" where
  "record_send conn phone y utcnow message =
     filter (\<lambda>r. \<not> (fst r = phone \<and> fst (snd r) = y)) conn @ [(phone, y, utcnow, message)]"

section \<open>Configuration and the outside world\<close>

text \<open>
  The module reads its configuration from the environment when it is loaded. A variable
  that is not set is \<open>None\<close>; Python's truth test on it also rejects the empty string.
  \<open>openai_lib\<close> says whether \<^verbatim>\<open>import openai\<close> succeeded. \<^verbatim>\<open>SEND_DELAY_SECONDS\<close> is a
  float and is not modelled: the pause after each candidate is the effect \<open>Sleep\<close>.
\<close>

record config =
  twilio_account_sid :: "string option"
  twilio_auth_token :: "string option"
  twilio_whatsapp_from :: "string option"
  meta_waba_token :: "string option"
  meta_phone_number_id :: "string option"
  openai_api_key :: "string option"
  openai_model :: string
  openai_lib :: bool
  max_messages_per_run :: int

fun env_set :: "string option \<Rightarrow> bool" where
  "env_set None = False"
| "env_set (Some s) = (s \<noteq> [])"

datatype request =
    TwilioPost string string string string string string
  | MetaPost string string string string

text \<open>
  \<open>TwilioPost url from to body sid token\<close> is the form-encoded request with its basic
  authentication, \<open>MetaPost url token to body\<close> the JSON request with its bearer token.
  A response is its status code and its text.
\<close>

datatype response = Response nat string

datatype logline =
    Starting
  | LoadFailed
  | MissingColumn string
  | AlreadySent string string
  | Found nat
  | BuiltinTemplate
  | OpenAIFailed
  | TwilioNotConfigured
  | TwilioFailed nat string
  | MetaNotConfigured
  | MetaFailed nat string
  | NoProvider
  | Sent string string
  | FailedSend string string
  | ExceptionSending string string
  | RunComplete nat

datatype effect = Log logline | Http request | Sleep | Uncaught pyexc

text \<open>
  What the outside world answers while one candidate is processed: the element
  \<^verbatim>\<open>random.choice\<close> draws (as an index, taken modulo the length of the list), the text of
  the chat completion for a model and a prompt (or the exception the call or the reading
  of its result raises), the replacement fields that \<open>py_format\<close> leaves open, the
  answer of \<^verbatim>\<open>requests.post\<close>, and \<^verbatim>\<open>datetime.utcnow().isoformat()\<close>.
\<close>

record ext =
  choice :: nat
  chat_completion :: "string \<Rightarrow> string \<Rightarrow> pyexc + string"
  other_field :: "field \<Rightarrow> pyexc + string"
  requests_post :: "request \<Rightarrow> pyexc + response"
  utcnow_iso :: string

section \<open>Composing the message\<close>

text \<open>
  The two template lists of \<^verbatim>\<open>generate_personal_message\<close>. The bytes between \<^verbatim>\<open>{name}!\<close>
  and \<^verbatim>\<open>Wishing\<close> are those of the source file.
\<close>

definition party :: string where
  "party = [CHR 0xC3, CHR 0xB0, CHR 0xC5, CHR 0xB8, CHR 0xC5, CHR 0xBD, CHR 0xE2, CHR 0x80, CHR 0xB0]"

definition templates :: "string list" where
  "templates =
     [''Happy Birthday, {name}! '' @ party @ '' Wishing you a fantastic day filled with joy.'',
      ''Many happy returns, {name}! Hope you have a wonderful birthday.'',
      ''Happy Birthday {name}! May your day be full of fun and surprises.'']"

definition fallback_templates :: "string list" where
  "fallback_templates =
     [''Happy Birthday, {name}! '' @ party @ '' Wishing you a fantastic day filled with joy.'',
      ''Many happy returns, {name}! Hope you have a wonderful birthday.'']"

definition random_choice :: "nat \<Rightarrow> 'a list \<Rightarrow> 'a" where
  "random_choice r xs = xs ! (r mod length xs)"

definition prompt :: "string \<Rightarrow> cell \<Rightarrow> string" where
  "prompt name notes =
     ''Write a short (1-2 lines), friendly WhatsApp birthday message for '' @ name @ ''.'' @
     (if truthy notes then '' Mention this about them: '' @ py_str notes @ ''.'' else []) @
     '' Keep it casual, emoji-friendly, 40-120 characters, and include the name. No signature.''"

text \<open>
  A template that is true but is not a string (an empty cell of a \<^verbatim>\<open>template\<close> column is
  the float nan) has no usable \<^verbatim>\<open>replace\<close>: the call raises.
\<close>

definition generate_personal_message ::
  "config \<Rightarrow> ext \<Rightarrow> string \<Rightarrow> cell \<Rightarrow> cell \<Rightarrow> effect list \<times> (pyexc + string)" where
  "generate_personal_message cfg x name notes template =
     (if truthy template then
        (case template of
           CStr t \<Rightarrow> ([], Inr (py_replace ''{name}'' name t))
         | _ \<Rightarrow> ([], Inl AttributeError))
      else if \<not> env_set (openai_api_key cfg) \<or> \<not> openai_lib cfg then
        (let t = random_choice (choice x) templates;
             t = (if truthy notes then t @ '' PS: '' @ py_str notes else t)
         in ([Log BuiltinTemplate], py_format (other_field x) name t))
      else
        (case chat_completion x (openai_model cfg) (prompt name notes) of
           Inr content \<Rightarrow> ([], Inr (py_strip content))
         | Inl e \<Rightarrow>
             (let t = random_choice (choice x) fallback_templates
              in ([Log OpenAIFailed], py_format (other_field x) name t))))"

section \<open>Sending\<close>

definition send_whatsapp_twilio ::
  "config \<Rightarrow> ext \<Rightarrow> string \<Rightarrow> string \<Rightarrow> effect list \<times> (pyexc + bool)" where
  "send_whatsapp_twilio cfg x phone message =
     (if \<not> (env_set (twilio_account_sid cfg) \<and> env_set (twilio_auth_token cfg)
            \<and> env_set (twilio_whatsapp_from cfg))
      then ([Log TwilioNotConfigured], Inr False)
      else
        (let sid = the (twilio_account_sid cfg);
             req = TwilioPost (''https://api.twilio.com/2010-04-01/Accounts/'' @ sid @ ''/Messages.json'')
                     (the (twilio_whatsapp_from cfg)) (''whatsapp:'' @ phone) message
                     sid (the (twilio_auth_token cfg))
         in case requests_post x req of
              Inl e \<Rightarrow> ([Http req], Inl e)
            | Inr (Response code txt) \<Rightarrow>
                if code = 200 \<or> code = 201 then ([Http req], Inr True)
                else ([Http req, Log (TwilioFailed code txt)], Inr False)))"

definition send_whatsapp_meta ::
  "config \<Rightarrow> ext \<Rightarrow> string \<Rightarrow> string \<Rightarrow> effect list \<times> (pyexc + bool)" where
  "send_whatsapp_meta cfg x phone message =
     (if \<not> (env_set (meta_waba_token cfg) \<and> env_set (meta_phone_number_id cfg))
      then ([Log MetaNotConfigured], Inr False)
      else
        (let req = MetaPost (''https://graph.facebook.com/v16.0/'' @ the (meta_phone_number_id cfg) @ ''/messages'')
                     (the (meta_waba_token cfg)) phone message
         in case requests_post x req of
              Inl e \<Rightarrow> ([Http req], Inl e)
            | Inr (Response code txt) \<Rightarrow>
                if code = 200 \<or> code = 201 then ([Http req], Inr True)
                else ([Http req, Log (MetaFailed code txt)], Inr False)))"

definition send_whatsapp ::
  "config \<Rightarrow> ext \<Rightarrow> string \<Rightarrow> string \<Rightarrow> effect list \<times> (pyexc + bool)" where
  "send_whatsapp cfg x phone message =
     (if env_set (twilio_account_sid cfg) \<and> env_set (twilio_auth_token cfg)
         \<and> env_set (twilio_whatsapp_from cfg)
      then send_whatsapp_twilio cfg x phone message
      else if env_set (meta_waba_token cfg) \<and> env_set (meta_phone_number_id cfg)
      then send_whatsapp_meta cfg x phone message
      else ([Log NoProvider], Inr False))"

section \<open>Dates\<close>

text \<open>
  A calendar date, as \<^verbatim>\<open>datetime.date\<close>. A point in time is a number (seconds since the
  epoch) and a time zone is the function that gives the local calendar date of a point
  in time: \<^verbatim>\<open>datetime.now(tz)\<close> is \<open>tz\<close> applied to the reading of the clock.
\<close>

record date =
  year :: int
  month :: nat
  day :: nat

type_synonym instant = int

type_synonym tz = "instant \<Rightarrow> date"

text \<open>
  The libraries and the clock: \<^verbatim>\<open>pytz.utc\<close>, \<^verbatim>\<open>pytz.timezone\<close> on a string (which raises on a
  name it does not know), \<^verbatim>\<open>pd.to_datetime(s).date()\<close> on a string (which raises on a
  text that is no date), the dates that \<^verbatim>\<open>pd.to_datetime\<close> accepts in a \<^verbatim>\<open>datetime\<close> or
  \<^verbatim>\<open>date\<close> object (before pandas 3.0 those between 1677 and 2262; on any other it raises
  \<^verbatim>\<open>OutOfBoundsDatetime\<close>), the readings of the clock (\<open>clock 0\<close> when \<^verbatim>\<open>main\<close> takes the
  year, \<open>clock (Suc i)\<close> when it looks at row \<open>i\<close>), and the answers to the \<open>k\<close>-th
  candidate of the sending loop.
\<close>

record env =
  utc :: tz
  pytz_timezone :: "string \<Rightarrow> pyexc + tz"
  to_datetime :: "string \<Rightarrow> pyexc + date"
  representable :: "date \<Rightarrow> bool"
  clock :: "nat \<Rightarrow> instant"
  ext_at :: "nat \<Rightarrow> ext"

text \<open>
  The value of a \<^verbatim>\<open>birthday\<close> cell: \<open>Null\<close> is what \<^verbatim>\<open>pd.isna\<close> accepts (None, nan, NaT),
  \<open>Stamp d\<close> a \<^verbatim>\<open>Timestamp\<close>, \<^verbatim>\<open>datetime\<close> or \<^verbatim>\<open>date\<close> of calendar date \<open>d\<close>, and \<open>Value s\<close>
  any other value, with \<open>str()\<close> equal to \<open>s\<close>.

  The conversion of a structured value stands outside the \<^verbatim>\<open>try\<close> block of
  \<^verbatim>\<open>parse_birthday\<close>, so what it raises reaches the caller; the conversion of a text
  stands inside, and every exception there gives \<open>None\<close>.
\<close>

datatype raw = Null | Stamp date | Value string

definition parse_birthday :: "env \<Rightarrow> raw \<Rightarrow> pyexc + date option" where
  "parse_birthday w bday_value =
     (case bday_value of
        Null \<Rightarrow> Inr None
      | Stamp d \<Rightarrow> if representable w d then Inr (Some d) else Inl OutOfBoundsDatetime
      | Value s \<Rightarrow> (case to_datetime w s of Inl e \<Rightarrow> Inr None | Inr d \<Rightarrow> Inr (Some d)))"

text \<open>
  \<^verbatim>\<open>pytz.timezone\<close> of a value that is true and is not a string raises too (it calls
  \<^verbatim>\<open>upper\<close> on it), and the handler catches every exception.
\<close>

definition is_birthday_today :: "env \<Rightarrow> instant \<Rightarrow> date \<Rightarrow> cell \<Rightarrow> bool" where
  "is_birthday_today w t bday_date tz_name =
     (let tz = (if truthy tz_name then
                  (case tz_name of
                     CStr s \<Rightarrow> (case pytz_timezone w s of Inl e \<Rightarrow> utc w | Inr z \<Rightarrow> z)
                   | _ \<Rightarrow> utc w)
                else utc w);
          now = tz t
      in month bday_date = month now \<and> day bday_date = day now)"

section \<open>The run\<close>

text \<open>
  One row of the sheet, by column. A candidate is the tuple \<^verbatim>\<open>(name, phone, notes, template)\<close>
  that \<^verbatim>\<open>main\<close> appends to \<^verbatim>\<open>to_send\<close>.
\<close>

record row =
  col_name :: cell
  col_phone :: cell
  col_birthday :: raw
  col_timezone :: cell
  col_notes :: cell
  col_template :: cell

type_synonym candidate = "string \<times> string \<times> cell \<times> cell"

text \<open>
  The body of the first loop of \<^verbatim>\<open>main\<close> for one row: what it logs and what it appends
  to \<^verbatim>\<open>to_send\<close>, or the exception that \<^verbatim>\<open>parse_birthday\<close> raised (the loop has no
  handler for it). \<open>is_birthday_today\<close> catches what the zone lookup raises itself, so
  the handler around its call in \<^verbatim>\<open>main\<close> is never entered.
\<close>

definition examine ::
  "env \<Rightarrow> store \<Rightarrow> int \<Rightarrow> instant \<Rightarrow> row \<Rightarrow> pyexc + effect list \<times> candidate list" where
  "examine w conn today_year t r =
     (let name = py_strip (py_str (col_name r));
          phone = py_strip (py_str (col_phone r))
      in case parse_birthday w (col_birthday r) of
           Inl e \<Rightarrow> Inl e
         | Inr None \<Rightarrow> Inr ([], [])
         | Inr (Some bday) \<Rightarrow>
             if is_birthday_today w t bday (col_timezone r) then
               (if already_sent conn phone today_year then Inr ([Log (AlreadySent name phone)], [])
                else Inr ([], [(name, phone, col_notes r, col_template r)]))
             else Inr ([], []))"

text \<open>
  The first loop: the log lines and the candidates gathered, and the exception that
  ended the loop, if one did.
\<close>

fun filtering ::
  "env \<Rightarrow> store \<Rightarrow> int \<Rightarrow> nat \<Rightarrow> row list \<Rightarrow> (effect list \<times> candidate list) \<times> pyexc option" where
  "filtering w conn today_year i [] = (([], []), None)"
| "filtering w conn today_year i (r # rs) =
     (case examine w conn today_year (clock w (Suc i)) r of
        Inl e \<Rightarrow> (([], []), Some e)
      | Inr one \<Rightarrow>
          (let more = filtering w conn today_year (Suc i) rs
           in ((fst one @ fst (fst more), snd one @ snd (fst more)), snd more)))"

text \<open>The slice \<^verbatim>\<open>xs[:n]\<close>: a negative \<open>n\<close> counts from the end.\<close>

definition slice_to :: "int \<Rightarrow> 'a list \<Rightarrow> 'a list" where
  "slice_to n xs = take (nat (if n < 0 then int (length xs) + n else n)) xs"

text \<open>
  The \<^verbatim>\<open>try\<close> block of the second loop up to the assignment of \<^verbatim>\<open>success\<close>: the message
  and the sender's answer, or the exception that one of the two calls raised.
\<close>

definition attempt :: "config \<Rightarrow> ext \<Rightarrow> candidate \<Rightarrow> effect list \<times> (pyexc + string \<times> bool)" where
  "attempt cfg x c =
     (case c of (name, phone, notes, template) \<Rightarrow>
        (case generate_personal_message cfg x name notes template of
           (es, Inl e) \<Rightarrow> (es, Inl e)
         | (es, Inr msg) \<Rightarrow>
             (case send_whatsapp cfg x phone msg of
                (es', Inl e) \<Rightarrow> (es @ es', Inl e)
              | (es', Inr success) \<Rightarrow> (es @ es', Inr (msg, success)))))"

text \<open>
  The body of the second loop for one candidate, on the store and the counter
  \<^verbatim>\<open>sent_count\<close>.
\<close>

definition send_one ::
  "config \<Rightarrow> ext \<Rightarrow> int \<Rightarrow> candidate \<Rightarrow> store \<times> nat \<Rightarrow> (store \<times> nat) \<times> effect list" where
  "send_one cfg x today_year c st =
     (case c of (name, phone, notes, template) \<Rightarrow>
        (case attempt cfg x c of
           (es, Inl e) \<Rightarrow> (st, es @ [Log (ExceptionSending name phone), Sleep])
         | (es, Inr (msg, success)) \<Rightarrow>
             if success then
               ((record_send (fst st) phone today_year (utcnow_iso x) msg, Suc (snd st)),
                es @ [Log (Sent name phone), Sleep])
             else (st, es @ [Log (FailedSend name phone), Sleep])))"

fun sending ::
  "config \<Rightarrow> (nat \<Rightarrow> ext) \<Rightarrow> int \<Rightarrow> nat \<Rightarrow> candidate list \<Rightarrow> store \<times> nat \<Rightarrow> (store \<times> nat) \<times> effect list" where
  "sending cfg xs today_year k [] st = (st, [])"
| "sending cfg xs today_year k (c # cs) st =
     (let one = send_one cfg (xs k) today_year c st;
          more = sending cfg xs today_year (Suc k) cs (fst one)
      in (fst more, snd one @ snd more))"

text \<open>
  The sheet as \<^verbatim>\<open>pd.read_excel\<close> returns it, its column names already trimmed and in lower
  case; \<open>Inl\<close> when reading it raised. \<^verbatim>\<open>main\<close> returns the store and what the run did; an
  exception that no handler catches ends the run and is the last effect, \<open>Uncaught\<close>.
\<close>

record frame =
  columns :: "string list"
  rows :: "row list"

definition today_year :: "env \<Rightarrow> int" where
  "today_year w = year (utc w (clock w 0))"

definition main :: "config \<Rightarrow> env \<Rightarrow> pyexc + frame \<Rightarrow> store \<Rightarrow> store \<times> effect list" where
  "main cfg w loaded db =
     (let conn = init_db db in
      case loaded of
        Inl e \<Rightarrow> (conn, [Log Starting, Log LoadFailed])
      | Inr df \<Rightarrow>
          (case find (\<lambda>r. r \<notin> set (columns df)) [''name'', ''phone'', ''birthday''] of
             Some r \<Rightarrow> (conn, [Log Starting, Log (MissingColumn r)])
           | None \<Rightarrow>
               (let found = filtering w conn (today_year w) 0 (rows df);
                    to_send = snd (fst found)
                in case snd found of
                     Some e \<Rightarrow> (conn, [Log Starting] @ fst (fst found) @ [Uncaught e])
                   | None \<Rightarrow>
                       (let sent = sending cfg (ext_at w) (today_year w) 0
                                     (slice_to (max_messages_per_run cfg) to_send) (conn, 0)
                        in (fst (fst sent),
                            [Log Starting] @ fst (fst found) @ [Log (Found (length to_send))]
                              @ snd sent @ [Log (RunComplete (snd (fst sent)))])))))"

section \<open>What a run can be seen to do\<close>

text \<open>The requests that a list of effects holds, in order.\<close>

definition requests_made :: "effect list \<Rightarrow> request list" where
  "requests_made es = List.map_filter (\<lambda>e. case e of Http r \<Rightarrow> Some r | _ \<Rightarrow> None) es"

text \<open>The two tests of \<^verbatim>\<open>send_whatsapp\<close> on the configuration.\<close>

definition twilio_configured :: "config \<Rightarrow> bool" where
  "twilio_configured cfg =
     (env_set (twilio_account_sid cfg) \<and> env_set (twilio_auth_token cfg) \<and> env_set (twilio_whatsapp_from cfg))"

definition meta_configured :: "config \<Rightarrow> bool" where
  "meta_configured cfg = (env_set (meta_waba_token cfg) \<and> env_set (meta_phone_number_id cfg))"

text \<open>
  Every pass of the second loop of \<^verbatim>\<open>main\<close> ends in exactly one of three log lines, each
  with the name and the phone of the candidate: sent, failed to send, or exception while
  sending. The attempts of a run are these lines, in order.
\<close>

fun attempt_line :: "effect \<Rightarrow> (string \<times> string) option" where
  "attempt_line (Log (Sent n p)) = Some (n, p)"
| "attempt_line (Log (FailedSend n p)) = Some (n, p)"
| "attempt_line (Log (ExceptionSending n p)) = Some (n, p)"
| "attempt_line e = None"

definition attempted :: "effect list \<Rightarrow> (string \<times> string) list" where
  "attempted es = List.map_filter attempt_line es"

definition label :: "candidate \<Rightarrow> string \<times> string" where
  "label c = (fst c, fst (snd c))"

text \<open>An attempt delivered when nothing raised and the sender answered \<open>True\<close>.\<close>

fun delivered :: "pyexc + string \<times> bool \<Rightarrow> bool" where
  "delivered (Inr (msg, success)) = success"
| "delivered (Inl e) = False"


text \<open>A text without braces.\<close>

definition brace_free :: "string \<Rightarrow> bool" where
  "brace_free s = (CHR ''{'' \<notin> set s \<and> CHR ''}'' \<notin> set s)"

section \<open>Sample data\<close>

text \<open>
  The data of the examples that follow the theorems: answers of the outside world (a
  provider call that raises, a sender that accepts, a sender that rejects), configurations
  with one or no provider, a run on the second of November 2024 and one on New Year's Eve,
  when it is already the first of January in Auckland, and four sheets.
\<close>

definition quiet :: ext where
  "quiet = \<lparr>choice = 1, chat_completion = (\<lambda>m p. Inl ExternalError),
             other_field = (\<lambda>f. Inl KeyError), requests_post = (\<lambda>q. Inl ExternalError),
             utcnow_iso = ''2024-11-02T08:00:00''\<rparr>"

definition accepting :: ext where
  "accepting = quiet\<lparr>requests_post := (\<lambda>q. Inr (Response 201 ''queued''))\<rparr>"

definition rejecting :: ext where
  "rejecting = quiet\<lparr>requests_post := (\<lambda>q. Inr (Response 500 ''busy''))\<rparr>"

definition bare :: config where
  "bare = \<lparr>twilio_account_sid = None, twilio_auth_token = None, twilio_whatsapp_from = None,
            meta_waba_token = None, meta_phone_number_id = None, openai_api_key = None,
            openai_model = ''gpt-4o-mini'', openai_lib = False, max_messages_per_run = 200\<rparr>"

definition twilio :: config where
  "twilio = bare\<lparr>twilio_account_sid := Some ''AC1'', twilio_auth_token := Some ''tok'',
                  twilio_whatsapp_from := Some ''whatsapp:+1415''\<rparr>"

definition meta :: config where
  "meta = bare\<lparr>meta_waba_token := Some ''EAAB'', meta_phone_number_id := Some ''1077''\<rparr>"

definition openai :: config where
  "openai = bare\<lparr>openai_api_key := Some ''sk-1'', openai_lib := True\<rparr>"

definition nov2 :: env where
  "nov2 = \<lparr>utc = (\<lambda>t. \<lparr>year = 2024, month = 11, day = 2\<rparr>),
            pytz_timezone = (\<lambda>s. if s = ''Pacific/Auckland''
                                  then Inr (\<lambda>t. \<lparr>year = 2024, month = 11, day = 3\<rparr>)
                                  else Inl ExternalError),
            to_datetime = (\<lambda>s. if s = ''1990-11-02'' then Inr \<lparr>year = 1990, month = 11, day = 2\<rparr>
                                else Inl ValueError),
            representable = (\<lambda>d. 1678 \<le> year d \<and> year d \<le> 2261),
            clock = (\<lambda>i. int i),
            ext_at = (\<lambda>k. if k = 0 then rejecting else accepting)\<rparr>"

definition new_years_eve :: env where
  "new_years_eve = nov2\<lparr>utc := (\<lambda>t. \<lparr>year = 2024, month = 12, day = 31\<rparr>),
      pytz_timezone := (\<lambda>s. if s = ''Pacific/Auckland''
                             then Inr (\<lambda>t. \<lparr>year = 2025, month = 1, day = 1\<rparr>)
                             else Inl ExternalError)\<rparr>"

definition greet :: "string \<Rightarrow> string \<Rightarrow> string \<Rightarrow> row" where
  "greet n p d = \<lparr>col_name = CStr n, col_phone = CStr p, col_birthday = Value d,
                   col_timezone = CNone, col_notes = CNone, col_template = CStr ''Hi {name}''\<rparr>"

definition three :: frame where
  "three = \<lparr>columns = [''name'', ''phone'', ''birthday'', ''template''],
             rows = [greet ''Ann'' ''+1'' ''1990-11-02'', greet ''Bob'' ''+2'' ''1990-11-02'',
                     greet ''Cy'' ''+3'' ''1990-11-02'']\<rparr>"

definition abroad :: frame where
  "abroad = \<lparr>columns = [''name'', ''phone'', ''birthday'', ''timezone''],
              rows = [\<lparr>col_name = CStr ''Ann'', col_phone = CStr '' +1555 '',
                       col_birthday = Stamp \<lparr>year = 1990, month = 1, day = 1\<rparr>,
                       col_timezone = CStr ''Pacific/Auckland'', col_notes = CNone,
                       col_template = CNone\<rparr>]\<rparr>"

definition far_future :: frame where
  "far_future = \<lparr>columns = [''name'', ''phone'', ''birthday'', ''template''],
                  rows = [(greet ''Ann'' ''+1'' ''1990-11-02'')
                            \<lparr>col_birthday := Stamp \<lparr>year = 3000, month = 11, day = 2\<rparr>\<rparr>,
                          greet ''Bob'' ''+2'' ''1990-11-02'']\<rparr>"

definition bob :: frame where
  "bob = \<lparr>columns = [''name'', ''phone'', ''birthday'', ''timezone'', ''notes'', ''template''],
           rows = [\<lparr>col_name = CStr ''Bob'', col_phone = CStr ''+447000'',
                    col_birthday = Value ''1990-11-02'', col_timezone = CStr [],
                    col_notes = CStr [], col_template = CStr []\<rparr>]\<rparr>"

declare py_replace.simps [simp del] strip_front.simps [simp del]

section \<open>Properties of the dedup store\<close>

lemma select_record_send_same:
  "select_sent (record_send conn phone y t message) phone y = [(phone, y, t, message)]"
  by (simp add: select_sent_def record_send_def)

lemma select_record_send_other:
  "(p, z) \<noteq> (phone, y) \<Longrightarrow>
   select_sent (record_send conn phone y t message) p z = select_sent conn p z"
  by (auto simp: select_sent_def record_send_def intro: filter_cong)

lemma send_one_success:
  assumes "generate_personal_message cfg x name notes template = (es, Inr msg)"
    and "send_whatsapp cfg x phone msg = (es', Inr True)"
  shows "send_one cfg x y (name, phone, notes, template) (conn, n) =
           ((record_send conn phone y (utcnow_iso x) msg, Suc n),
            es @ es' @ [Log (Sent name phone), Sleep])"
  using assms by (simp add: send_one_def attempt_def)

text \<open>
  Claim C2. After \<^verbatim>\<open>record_send\<close> for a phone, a year and a message, \<^verbatim>\<open>already_sent\<close> is
  true for that phone and year, and the table holds exactly one row for the key, with
  that message; a second \<^verbatim>\<open>record_send\<close> for the key leaves exactly one row, the new one.
  In the sending loop the message recorded after a successful send is the text that was
  passed to \<^verbatim>\<open>send_whatsapp\<close>.
\<close>

theorem record_send_round_trip:
  "already_sent (record_send conn phone y t message) phone y
   \<and> select_sent (record_send conn phone y t message) phone y = [(phone, y, t, message)]
   \<and> select_sent (record_send (record_send conn phone y t message) phone y t' message') phone y
       = [(phone, y, t', message')]
   \<and> (generate_personal_message cfg x name nts tpl = (es, Inr msg)
        \<longrightarrow> send_whatsapp cfg x phone msg = (es', Inr True)
        \<longrightarrow> select_sent (fst (fst (send_one cfg x y (name, phone, nts, tpl) (conn, n)))) phone y
             = [(phone, y, utcnow_iso x, msg)])"
  by (simp add: already_sent_def select_record_send_same send_one_success)

theorem record_send_round_trip_witness:
  "select_sent (fst (fst (send_one twilio accepting 2024 (''Bob'', ''+1555'', CNone, CStr ''Yo {name}!'')
      ([(''+1555'', 2024, ''2024-01-01T09:00:00'', ''Hi'')], 0)))) ''+1555'' 2024
     = [(''+1555'', 2024, ''2024-11-02T08:00:00'', ''Yo Bob!'')]"
proof -
  have g: "generate_personal_message twilio accepting ''Bob'' CNone (CStr ''Yo {name}!'') = ([], Inr ''Yo Bob!'')"
    by code_simp
  have s: "send_whatsapp twilio accepting ''+1555'' ''Yo Bob!'' =
      ([Http (TwilioPost ''https://api.twilio.com/2010-04-01/Accounts/AC1/Messages.json''
          ''whatsapp:+1415'' ''whatsapp:+1555'' ''Yo Bob!'' ''AC1'' ''tok'')], Inr True)"
    by code_simp
  have u: "utcnow_iso accepting = ''2024-11-02T08:00:00''" by code_simp
  from record_send_round_trip[where conn = "[(''+1555'', 2024, ''2024-01-01T09:00:00'', ''Hi'')]"
      and phone = "''+1555''" and y = 2024 and cfg = twilio and x = accepting and name = "''Bob''"
      and nts = CNone and tpl = "CStr ''Yo {name}!''" and es = "[]" and msg = "''Yo Bob!''" and n = 0] g s
  show ?thesis by (simp only: u)
qed

section \<open>Properties of the composer\<close>

text \<open>
  Three facts that say what \<open>py_replace\<close> computes: a text without the pattern is left as
  it is; the first occurrence of the pattern is replaced and the rest of the text treated
  in the same way; and so a text cut at the occurrences of the pattern, from the left,
  becomes its pieces with the new text between them.
\<close>

lemma py_replace_absent:
  "old \<noteq> [] \<Longrightarrow> \<not> (\<exists>a b. s = a @ old @ b) \<Longrightarrow> py_replace old new s = s"
proof (induction old new s rule: py_replace.induct)
  case (1 old new s)
  show ?case
  proof (cases s)
    case Nil
    with 1 show ?thesis by (simp add: py_replace.simps)
  next
    case (Cons c cs)
    have np: "\<not> prefix old s"
    proof
      assume "prefix old s"
      then obtain b where "s = old @ b" by (auto simp: prefix_def)
      then have "s = [] @ old @ b" by simp
      with 1(4) show False by blast
    qed
    have "\<not> (\<exists>a b. tl s = a @ old @ b)"
    proof
      assume "\<exists>a b. tl s = a @ old @ b"
      then obtain a b where "tl s = a @ old @ b" by blast
      with Cons have "s = (c # a) @ old @ b" by simp
      with 1(4) show False by blast
    qed
    with 1(2)[OF 1(3) _ np] 1(3) Cons have "py_replace old new (tl s) = tl s" by simp
    with np 1(3) Cons show ?thesis by (subst py_replace.simps) simp
  qed
qed

lemma py_replace_first:
  assumes "old \<noteq> []" and "\<not> (\<exists>u v. a @ butlast old = u @ old @ v)"
  shows "py_replace old new (a @ old @ b) = a @ new @ py_replace old new b"
  using assms
proof (induction a)
  case Nil
  then show ?case by (subst py_replace.simps) simp
next
  case (Cons c a)
  have np: "\<not> prefix old ((c # a) @ old @ b)"
  proof
    assume p: "prefix old ((c # a) @ old @ b)"
    then obtain r where r: "(c # a) @ old @ b = old @ r" by (auto simp: prefix_def)
    have "prefix old ((c # a) @ butlast old)"
    proof -
      have "length old \<le> length ((c # a) @ butlast old)" using Cons.prems(1) by simp
      moreover have "take (length old) ((c # a) @ old @ b) = old" using r by simp
      moreover have "take (length old) ((c # a) @ old @ b) = take (length old) ((c # a) @ butlast old)"
        using Cons.prems(1) by (cases old rule: rev_cases) auto
      ultimately show ?thesis by (metis take_is_prefix)
    qed
    then obtain v where "(c # a) @ butlast old = [] @ old @ v" by (auto simp: prefix_def)
    with Cons.prems(2) show False by blast
  qed
  have "\<not> (\<exists>u v. a @ butlast old = u @ old @ v)"
  proof
    assume "\<exists>u v. a @ butlast old = u @ old @ v"
    then obtain u v where "a @ butlast old = u @ old @ v" by blast
    then have "(c # a) @ butlast old = (c # u) @ old @ v" by simp
    with Cons.prems(2) show False by blast
  qed
  with Cons have "py_replace old new (a @ old @ b) = a @ new @ py_replace old new b" by simp
  with np Cons.prems(1) show ?case by (subst py_replace.simps) simp
qed

lemma py_replace_segments:
  assumes "old \<noteq> []"
    and "list_all (\<lambda>a. \<not> sublist old (a @ butlast old)) as"
    and "\<not> sublist old b"
  shows "py_replace old new (concat (map (\<lambda>a. a @ old) as) @ b) = concat (map (\<lambda>a. a @ new) as) @ b"
  using assms(2)
proof (induction as)
  case Nil
  from assms(3) have "\<not> (\<exists>u v. b = u @ old @ v)" by (simp add: sublist_def)
  from py_replace_absent[OF assms(1) this] show ?case by simp
next
  case (Cons a as)
  then have "\<not> sublist old (a @ butlast old)"
    and IH: "py_replace old new (concat (map (\<lambda>a. a @ old) as) @ b) = concat (map (\<lambda>a. a @ new) as) @ b"
    by simp_all
  then have a: "\<not> (\<exists>u v. a @ butlast old = u @ old @ v)" by (simp add: sublist_def)
  from py_replace_first[OF assms(1) a, of new "concat (map (\<lambda>a. a @ old) as) @ b"] IH
  show ?case by simp
qed

text \<open>
  Claim C9. For every name and every non-empty template string the composed message is
  the template with every occurrence of \<^verbatim>\<open>{name}\<close> replaced by the name, and nothing else
  happens (no log line, no call of a provider), whatever the configuration, the answers
  of the outside world and the notes are. Said without \<open>py_replace\<close>: when the template is
  cut at its occurrences of \<^verbatim>\<open>{name}\<close>, from the left, the message is the pieces with the
  name between them.
\<close>

theorem template_precedence:
  assumes "t \<noteq> []"
  shows "generate_personal_message cfg x name nts (CStr t) = ([], Inr (py_replace ''{name}'' name t))
     \<and> (\<forall>as b. list_all (\<lambda>a. \<not> sublist ''{name}'' (a @ ''{name'')) as
            \<and> \<not> sublist ''{name}'' b
            \<and> t = concat (map (\<lambda>a. a @ ''{name}'') as) @ b \<longrightarrow>
          generate_personal_message cfg x name nts (CStr t) =
            ([], Inr (concat (map (\<lambda>a. a @ name) as) @ b)))"
proof -
  have g: "generate_personal_message cfg x name nts (CStr t) = ([], Inr (py_replace ''{name}'' name t))"
    using assms by (simp add: generate_personal_message_def)
  have b: "butlast ''{name}'' = ''{name''" by simp
  have "py_replace ''{name}'' name (concat (map (\<lambda>a. a @ ''{name}'') as) @ b) =
      concat (map (\<lambda>a. a @ name) as) @ b"
    if "list_all (\<lambda>a. \<not> sublist ''{name}'' (a @ ''{name'')) as" and "\<not> sublist ''{name}'' b" for as b
    using py_replace_segments[of "''{name}''" as b name] that unfolding b by blast
  with g show ?thesis by metis
qed

theorem template_precedence_witness:
  "generate_personal_message openai quiet ''Alice'' (CStr ''loves tea'') (CStr ''Yo {name}! {name}?'')
     = ([], Inr ''Yo Alice! Alice?'')"
proof -
  have t: "''Yo {name}! {name}?'' \<noteq> []" by simp
  have s: "list_all (\<lambda>a. \<not> sublist ''{name}'' (a @ ''{name'')) [''Yo '', ''! '']
      \<and> \<not> sublist ''{name}'' ''?''
      \<and> ''Yo {name}! {name}?'' = concat (map (\<lambda>a. a @ ''{name}'') [''Yo '', ''! '']) @ ''?''"
    by code_simp
  from template_precedence[OF t, of openai quiet "''Alice''" "CStr ''loves tea''"] s
  have "generate_personal_message openai quiet ''Alice'' (CStr ''loves tea'') (CStr ''Yo {name}! {name}?'')
     = ([], Inr (concat (map (\<lambda>a. a @ ''Alice'') [''Yo '', ''! '']) @ ''?''))"
    by blast
  then show ?thesis by simp
qed

text \<open>
  Formatting copies a text without braces, puts the name for \<^verbatim>\<open>{name}\<close>, and fails on a
  brace that the text ends on. On the builtin templates it does what \<open>py_replace\<close> does.
\<close>

lemma emit_emit: "emit s (emit t r) = emit (s @ t) r"
  by (cases r) (simp_all add: emit_def)

lemma emit_Nil: "emit [] r = r"
  by (cases r) (simp_all add: emit_def)

lemma format_plain:
  "brace_free s \<Longrightarrow> py_format other name (s @ rest) = emit s (py_format other name rest)"
proof (induction s)
  case Nil
  then show ?case by (simp add: emit_Nil)
next
  case (Cons c s)
  then have c: "c \<noteq> CHR ''{''" "c \<noteq> CHR ''}''" and s: "brace_free s"
    by (auto simp: brace_free_def)
  from c have "py_format other name ((c # s) @ rest) = emit [c] (py_format other name (s @ rest))"
    by simp
  with Cons.IH[OF s] show ?case by (simp add: emit_emit)
qed

lemma format_name: "py_format other name (''{name}'' @ rest) = emit name (py_format other name rest)"
  by (simp add: parse_field_def render_field_def)

lemma filled_templates:
  "py_replace ''{name}'' name (templates ! 0) =
     ''Happy Birthday, '' @ name @ ''! '' @ party @ '' Wishing you a fantastic day filled with joy.''"
  "py_replace ''{name}'' name (templates ! 1) =
     ''Many happy returns, '' @ name @ ''! Hope you have a wonderful birthday.''"
  "py_replace ''{name}'' name (templates ! 2) =
     ''Happy Birthday '' @ name @ ''! May your day be full of fun and surprises.''"
  by (simp_all add: templates_def party_def py_replace.simps)

lemma format_templates:
  "i < 3 \<Longrightarrow> py_format other name (templates ! i @ rest) =
     emit (py_replace ''{name}'' name (templates ! i)) (py_format other name rest)"
proof -
  assume "i < 3"
  then consider "i = 0" | "i = 1" | "i = 2" by linarith
  then show ?thesis
  proof cases
    case 1
    show ?thesis unfolding 1 filled_templates
      by (simp add: templates_def party_def parse_field_def render_field_def emit_emit)
  next
    case 2
    show ?thesis unfolding 2 filled_templates
      by (simp add: templates_def parse_field_def render_field_def emit_emit)
  next
    case 3
    show ?thesis unfolding 3 filled_templates
      by (simp add: templates_def parse_field_def render_field_def emit_emit)
  qed
qed

lemma choice_templates: "random_choice r templates = templates ! (r mod 3)"
  by (simp add: random_choice_def templates_def)

lemma choice_fallback: "random_choice r fallback_templates = templates ! (r mod 2)"
proof -
  have l: "length fallback_templates = 2" by (simp add: fallback_templates_def)
  have 0: "fallback_templates ! 0 = templates ! 0" and 1: "fallback_templates ! 1 = templates ! 1"
    by (simp_all add: fallback_templates_def templates_def)
  have "r mod 2 = 0 \<or> r mod 2 = 1" by arith
  then show ?thesis
  proof
    assume "r mod 2 = 0"
    then show ?thesis unfolding random_choice_def l by (simp only: 0)
  next
    assume "r mod 2 = 1"
    then show ?thesis unfolding random_choice_def l by (simp only: 1)
  qed
qed

lemma format_chosen:
  "py_format other name (random_choice r templates @ rest) =
     emit (py_replace ''{name}'' name (random_choice r templates)) (py_format other name rest)"
  by (simp add: choice_templates format_templates)

lemma format_fallback:
  "py_format other name (random_choice r fallback_templates) =
     Inr (py_replace ''{name}'' name (random_choice r fallback_templates))"
proof -
  have "r mod 2 < 3" by arith
  from format_templates[OF this, of other name "[]"] show ?thesis
    by (simp add: choice_fallback emit_def)
qed

text \<open>
  Claim C3. With no template, the provider configured and its call failing, the composer
  logs the failure and returns one of the two templates of the handler with the name
  substituted; the provider's exception does not reach the caller. The notes are not
  appended on this path: the result is the same for every value of the notes.
\<close>

theorem provider_failure_fallback:
  assumes "\<not> truthy tpl" and "env_set (openai_api_key cfg)" and "openai_lib cfg"
    and "chat_completion x (openai_model cfg) (prompt name nts) = Inl e"
  shows "generate_personal_message cfg x name nts tpl =
           ([Log OpenAIFailed],
            Inr (if choice x mod 2 = 0
                 then ''Happy Birthday, '' @ name @ ''! '' @ party @ '' Wishing you a fantastic day filled with joy.''
                 else ''Many happy returns, '' @ name @ ''! Hope you have a wonderful birthday.''))"
proof -
  have "choice x mod 2 = 0 \<or> choice x mod 2 = 1" by arith
  then have "py_replace ''{name}'' name (random_choice (choice x) fallback_templates) =
      (if choice x mod 2 = 0
       then ''Happy Birthday, '' @ name @ ''! '' @ party @ '' Wishing you a fantastic day filled with joy.''
       else ''Many happy returns, '' @ name @ ''! Hope you have a wonderful birthday.'')"
  proof
    assume c: "choice x mod 2 = 0"
    show ?thesis unfolding choice_fallback c by (simp only: filled_templates) simp
  next
    assume c: "choice x mod 2 = 1"
    show ?thesis unfolding choice_fallback c by (simp only: filled_templates) simp
  qed
  with assms show ?thesis
    by (simp add: generate_personal_message_def format_fallback Let_def)
qed

theorem provider_failure_fallback_witness:
  "generate_personal_message openai quiet ''Bob'' (CStr ''loves chess'') CNone
      = ([Log OpenAIFailed], Inr ''Many happy returns, Bob! Hope you have a wonderful birthday.'')
   \<and> generate_personal_message bare quiet ''Bob'' (CStr ''loves chess'') CNone
      = ([Log BuiltinTemplate],
         Inr ''Many happy returns, Bob! Hope you have a wonderful birthday. PS: loves chess'')"
proof -
  have t: "\<not> truthy CNone" by simp
  have k: "env_set (openai_api_key openai)" by code_simp
  have l: "openai_lib openai" by code_simp
  have c: "chat_completion quiet (openai_model openai) (prompt ''Bob'' (CStr ''loves chess'')) = Inl ExternalError"
    by (simp add: quiet_def)
  have r: "choice quiet mod 2 = 1" by code_simp
  have u: "generate_personal_message bare quiet ''Bob'' (CStr ''loves chess'') CNone
      = ([Log BuiltinTemplate],
         Inr ''Many happy returns, Bob! Hope you have a wonderful birthday. PS: loves chess'')"
    by code_simp
  from provider_failure_fallback[OF t k l c] u show ?thesis
    unfolding r by simp
qed

lemma format_fields:
  "list_all brace_free as \<Longrightarrow> brace_free b \<Longrightarrow>
   py_format other name (concat (map (\<lambda>a. a @ ''{name}'') as) @ b) =
     Inr (concat (map (\<lambda>a. a @ name) as) @ b)"
proof (induction as)
  case Nil
  from format_plain[OF Nil(2), of other name "[]"] show ?case by (simp add: emit_def)
next
  case (Cons a as)
  then have a: "brace_free a" and IH: "py_format other name (concat (map (\<lambda>a. a @ ''{name}'') as) @ b) =
     Inr (concat (map (\<lambda>a. a @ name) as) @ b)" by simp_all
  have "py_format other name (a @ ''{name}'' @ concat (map (\<lambda>a. a @ ''{name}'') as) @ b) =
      emit a (emit name (py_format other name (concat (map (\<lambda>a. a @ ''{name}'') as) @ b)))"
    by (simp only: format_plain[OF a] format_name)
  with IH show ?case by (simp add: emit_def)
qed

text \<open>
  Claim C10. With no template and no provider, the postscript is appended to the chosen
  template before the text is formatted, so the braces of the notes are format syntax:
  notes that end on a single brace after text without braces make the composer raise
  \<open>ValueError\<close>, and in notes whose only braces are those of \<^verbatim>\<open>{name}\<close> placeholders
  every placeholder is replaced by the name.
\<close>

theorem notes_are_formatted:
  assumes "\<not> truthy tpl" and "\<not> env_set (openai_api_key cfg) \<or> \<not> openai_lib cfg" and "truthy nts"
  shows "generate_personal_message cfg x name nts tpl =
           ([Log BuiltinTemplate],
            py_format (other_field x) name (random_choice (choice x) templates @ '' PS: '' @ py_str nts))
     \<and> (\<forall>a. brace_free a \<and> (py_str nts = a @ ''{'' \<or> py_str nts = a @ ''}'') \<longrightarrow>
           snd (generate_personal_message cfg x name nts tpl) = Inl ValueError)
     \<and> (\<forall>as b. list_all brace_free as \<and> brace_free b
            \<and> py_str nts = concat (map (\<lambda>a. a @ ''{name}'') as) @ b \<longrightarrow>
           snd (generate_personal_message cfg x name nts tpl) =
             Inr (py_replace ''{name}'' name (random_choice (choice x) templates) @ '' PS: ''
                  @ concat (map (\<lambda>a. a @ name) as) @ b))"
proof -
  let ?t = "random_choice (choice x) templates"
  have g: "generate_personal_message cfg x name nts tpl =
      ([Log BuiltinTemplate], py_format (other_field x) name (?t @ '' PS: '' @ py_str nts))"
    using assms by (auto simp: generate_personal_message_def Let_def)
  have sg: "snd (generate_personal_message cfg x name nts tpl) =
      py_format (other_field x) name (?t @ '' PS: '' @ py_str nts)"
    by (simp only: g snd_conv)
  have ps: "brace_free '' PS: ''" by (simp add: brace_free_def)
  have f: "py_format (other_field x) name (?t @ '' PS: '' @ rest) =
      emit (py_replace ''{name}'' name ?t @ '' PS: '') (py_format (other_field x) name rest)" for rest
    using format_plain[OF ps, of "other_field x" name rest]
    by (simp only: format_chosen emit_emit)
  have 1: "snd (generate_personal_message cfg x name nts tpl) = Inl ValueError"
    if a: "brace_free a" and n: "py_str nts = a @ ''{'' \<or> py_str nts = a @ ''}''" for a
  proof -
    have "py_format (other_field x) name (a @ ''{'') = Inl ValueError"
      and "py_format (other_field x) name (a @ ''}'') = Inl ValueError"
      by (simp_all add: format_plain[OF a] emit_def)
    with n have "py_format (other_field x) name (py_str nts) = Inl ValueError" by auto
    then show ?thesis unfolding sg f by (simp add: emit_def)
  qed
  have 2: "snd (generate_personal_message cfg x name nts tpl) =
      Inr (py_replace ''{name}'' name ?t @ '' PS: '' @ concat (map (\<lambda>a. a @ name) as) @ b)"
    if "list_all brace_free as" and "brace_free b"
      and "py_str nts = concat (map (\<lambda>a. a @ ''{name}'') as) @ b" for as b
    unfolding sg f that(3) format_fields[OF that(1,2)] by (simp add: emit_def)
  from g 1 2 show ?thesis by blast
qed

theorem notes_are_formatted_witness:
  "generate_personal_message bare quiet ''Bob'' (CStr ''{'') CNone = ([Log BuiltinTemplate], Inl ValueError)
   \<and> snd (generate_personal_message bare quiet ''Bob'' (CStr ''call {name} or {name}!'') CNone)
      = Inr ''Many happy returns, Bob! Hope you have a wonderful birthday. PS: call Bob or Bob!''"
proof -
  have t: "\<not> truthy CNone" by simp
  have k: "\<not> env_set (openai_api_key bare) \<or> \<not> openai_lib bare" by code_simp
  have n1: "truthy (CStr ''{'')" and n2: "truthy (CStr ''call {name} or {name}!'')" by simp_all
  have e: "brace_free [] \<and> (py_str (CStr ''{'') = [] @ ''{'' \<or> py_str (CStr ''{'') = [] @ ''}'')"
    by (simp add: brace_free_def)
  have s: "list_all brace_free [''call '', '' or ''] \<and> brace_free ''!''
      \<and> py_str (CStr ''call {name} or {name}!'') = concat (map (\<lambda>a. a @ ''{name}'') [''call '', '' or '']) @ ''!''"
    by (simp add: brace_free_def)
  have f: "py_replace ''{name}'' ''Bob'' (random_choice (choice quiet) templates) =
      ''Many happy returns, Bob! Hope you have a wonderful birthday.''"
    by code_simp
  from notes_are_formatted[OF t k n1, of quiet "''Bob''"] e
  have 1: "snd (generate_personal_message bare quiet ''Bob'' (CStr ''{'') CNone) = Inl ValueError"
    and 0: "fst (generate_personal_message bare quiet ''Bob'' (CStr ''{'') CNone) = [Log BuiltinTemplate]"
    by (blast, simp)
  from notes_are_formatted[OF t k n2, of quiet "''Bob''"] s
  have 2: "snd (generate_personal_message bare quiet ''Bob'' (CStr ''call {name} or {name}!'') CNone) =
      Inr (py_replace ''{name}'' ''Bob'' (random_choice (choice quiet) templates) @ '' PS: ''
           @ concat (map (\<lambda>a. a @ ''Bob'') [''call '', '' or '']) @ ''!'')"
    by blast
  from 0 1 have "generate_personal_message bare quiet ''Bob'' (CStr ''{'') CNone = ([Log BuiltinTemplate], Inl ValueError)"
    by (simp add: prod_eq_iff)
  with 2 show ?thesis unfolding f by simp
qed

section \<open>Properties of the sender\<close>

lemma twilio_requests:
  "twilio_configured cfg \<Longrightarrow>
   requests_made (fst (send_whatsapp_twilio cfg x phone msg)) =
     [TwilioPost (''https://api.twilio.com/2010-04-01/Accounts/'' @ the (twilio_account_sid cfg) @ ''/Messages.json'')
        (the (twilio_whatsapp_from cfg)) (''whatsapp:'' @ phone) msg
        (the (twilio_account_sid cfg)) (the (twilio_auth_token cfg))]"
  by (simp add: twilio_configured_def send_whatsapp_twilio_def requests_made_def map_filter_simps Let_def
      split: sum.splits response.splits)

lemma meta_requests:
  "meta_configured cfg \<Longrightarrow>
   requests_made (fst (send_whatsapp_meta cfg x phone msg)) =
     [MetaPost (''https://graph.facebook.com/v16.0/'' @ the (meta_phone_number_id cfg) @ ''/messages'')
        (the (meta_waba_token cfg)) phone msg]"
  by (simp add: meta_configured_def send_whatsapp_meta_def requests_made_def map_filter_simps Let_def
      split: sum.splits response.splits)

text \<open>
  Claim C8. \<^verbatim>\<open>send_whatsapp\<close> uses one provider, by a fixed preference: with the three
  Twilio settings present it is \<^verbatim>\<open>send_whatsapp_twilio\<close> and makes exactly one request, to
  Twilio, also when Meta is configured; otherwise, with the two Meta settings present, it
  is \<^verbatim>\<open>send_whatsapp_meta\<close> and makes exactly one request, to Meta; with neither it logs
  an error and returns \<open>False\<close> without any request.
\<close>

theorem send_whatsapp_provider:
  "(twilio_configured cfg \<longrightarrow>
      send_whatsapp cfg x phone msg = send_whatsapp_twilio cfg x phone msg
      \<and> requests_made (fst (send_whatsapp cfg x phone msg)) =
          [TwilioPost (''https://api.twilio.com/2010-04-01/Accounts/'' @ the (twilio_account_sid cfg) @ ''/Messages.json'')
             (the (twilio_whatsapp_from cfg)) (''whatsapp:'' @ phone) msg
             (the (twilio_account_sid cfg)) (the (twilio_auth_token cfg))])
   \<and> (\<not> twilio_configured cfg \<and> meta_configured cfg \<longrightarrow>
      send_whatsapp cfg x phone msg = send_whatsapp_meta cfg x phone msg
      \<and> requests_made (fst (send_whatsapp cfg x phone msg)) =
          [MetaPost (''https://graph.facebook.com/v16.0/'' @ the (meta_phone_number_id cfg) @ ''/messages'')
             (the (meta_waba_token cfg)) phone msg])
   \<and> (\<not> twilio_configured cfg \<and> \<not> meta_configured cfg \<longrightarrow>
      send_whatsapp cfg x phone msg = ([Log NoProvider], Inr False)
      \<and> requests_made (fst (send_whatsapp cfg x phone msg)) = [])"
proof (intro conjI impI)
  assume t: "twilio_configured cfg"
  then show a: "send_whatsapp cfg x phone msg = send_whatsapp_twilio cfg x phone msg"
    by (simp add: send_whatsapp_def twilio_configured_def)
  show "requests_made (fst (send_whatsapp cfg x phone msg)) =
          [TwilioPost (''https://api.twilio.com/2010-04-01/Accounts/'' @ the (twilio_account_sid cfg) @ ''/Messages.json'')
             (the (twilio_whatsapp_from cfg)) (''whatsapp:'' @ phone) msg
             (the (twilio_account_sid cfg)) (the (twilio_auth_token cfg))]"
    unfolding a using t by (rule twilio_requests)
next
  assume m: "\<not> twilio_configured cfg \<and> meta_configured cfg"
  then show a: "send_whatsapp cfg x phone msg = send_whatsapp_meta cfg x phone msg"
    by (auto simp: send_whatsapp_def twilio_configured_def meta_configured_def)
  show "requests_made (fst (send_whatsapp cfg x phone msg)) =
          [MetaPost (''https://graph.facebook.com/v16.0/'' @ the (meta_phone_number_id cfg) @ ''/messages'')
             (the (meta_waba_token cfg)) phone msg]"
    unfolding a using m by (simp add: meta_requests)
next
  assume n: "\<not> twilio_configured cfg \<and> \<not> meta_configured cfg"
  then show a: "send_whatsapp cfg x phone msg = ([Log NoProvider], Inr False)"
    by (auto simp: send_whatsapp_def twilio_configured_def meta_configured_def)
  show "requests_made (fst (send_whatsapp cfg x phone msg)) = []"
    unfolding a by (simp add: requests_made_def map_filter_simps)
qed

theorem send_whatsapp_provider_witness:
  "send_whatsapp (twilio\<lparr>meta_waba_token := Some ''EAAB'', meta_phone_number_id := Some ''1077''\<rparr>)
      accepting ''+1555'' ''Hi''
     = ([Http (TwilioPost ''https://api.twilio.com/2010-04-01/Accounts/AC1/Messages.json''
           ''whatsapp:+1415'' ''whatsapp:+1555'' ''Hi'' ''AC1'' ''tok'')], Inr True)
   \<and> send_whatsapp meta accepting ''+1555'' ''Hi''
     = ([Http (MetaPost ''https://graph.facebook.com/v16.0/1077/messages'' ''EAAB'' ''+1555'' ''Hi'')], Inr True)
   \<and> send_whatsapp bare accepting ''+1555'' ''Hi'' = ([Log NoProvider], Inr False)"
proof -
  let ?both = "twilio\<lparr>meta_waba_token := Some ''EAAB'', meta_phone_number_id := Some ''1077''\<rparr>"
  have b: "twilio_configured ?both" by code_simp
  have m: "\<not> twilio_configured meta \<and> meta_configured meta" by code_simp
  have n: "\<not> twilio_configured bare \<and> \<not> meta_configured bare" by code_simp
  from send_whatsapp_provider[of ?both accepting "''+1555''" "''Hi''"] b
  have 1: "send_whatsapp ?both accepting ''+1555'' ''Hi'' = send_whatsapp_twilio ?both accepting ''+1555'' ''Hi''"
    by blast
  from send_whatsapp_provider[of meta accepting "''+1555''" "''Hi''"] m
  have 2: "send_whatsapp meta accepting ''+1555'' ''Hi'' = send_whatsapp_meta meta accepting ''+1555'' ''Hi''"
    by blast
  from send_whatsapp_provider[of bare accepting "''+1555''" "''Hi''"] n
  have 3: "send_whatsapp bare accepting ''+1555'' ''Hi'' = ([Log NoProvider], Inr False)"
    by blast
  have 4: "send_whatsapp_twilio ?both accepting ''+1555'' ''Hi'' =
      ([Http (TwilioPost ''https://api.twilio.com/2010-04-01/Accounts/AC1/Messages.json''
           ''whatsapp:+1415'' ''whatsapp:+1555'' ''Hi'' ''AC1'' ''tok'')], Inr True)"
    by code_simp
  have 5: "send_whatsapp_meta meta accepting ''+1555'' ''Hi'' =
      ([Http (MetaPost ''https://graph.facebook.com/v16.0/1077/messages'' ''EAAB'' ''+1555'' ''Hi'')], Inr True)"
    by code_simp
  show ?thesis unfolding 1 2 3 4 5 by simp
qed

section \<open>Properties of the birthday matcher\<close>

text \<open>
  Claim C4. \<^verbatim>\<open>is_birthday_today\<close> compares the month and the day of the birth date with
  those of the current time in the zone it resolves: UTC when the zone argument is absent,
  empty or not a string, the named zone when \<^verbatim>\<open>pytz\<close> knows the name, and UTC again, with
  no error, when it does not. The year of the birth date does not matter.
\<close>

theorem is_birthday_today_zone:
  "((tz_name = CStr [] \<or> (\<forall>s. tz_name \<noteq> CStr s)) \<longrightarrow>
      is_birthday_today w t b tz_name = (month b = month (utc w t) \<and> day b = day (utc w t)))
   \<and> (s \<noteq> [] \<and> pytz_timezone w s = Inr z \<longrightarrow>
      is_birthday_today w t b (CStr s) = (month b = month (z t) \<and> day b = day (z t)))
   \<and> (s \<noteq> [] \<and> pytz_timezone w s = Inl e \<longrightarrow>
      is_birthday_today w t b (CStr s) = (month b = month (utc w t) \<and> day b = day (utc w t)))
   \<and> is_birthday_today w t (b\<lparr>year := y\<rparr>) tz_name = is_birthday_today w t b tz_name"
  by (cases tz_name) (simp_all add: is_birthday_today_def Let_def)

theorem is_birthday_today_zone_witness:
  "is_birthday_today nov2 0 \<lparr>year = 1990, month = 11, day = 2\<rparr> CNone
   \<and> is_birthday_today nov2 0 \<lparr>year = 1990, month = 11, day = 3\<rparr> (CStr ''Pacific/Auckland'')
   \<and> is_birthday_today nov2 0 \<lparr>year = 1990, month = 11, day = 2\<rparr> (CStr ''Mars/Base'')"
proof -
  have u: "utc nov2 0 = \<lparr>year = 2024, month = 11, day = 2\<rparr>" by code_simp
  have k: "''Pacific/Auckland'' \<noteq> [] \<and>
      pytz_timezone nov2 ''Pacific/Auckland'' = Inr (\<lambda>t. \<lparr>year = 2024, month = 11, day = 3\<rparr>)"
    by (simp add: nov2_def)
  have m: "''Mars/Base'' \<noteq> [] \<and> pytz_timezone nov2 ''Mars/Base'' = Inl ExternalError"
    by (simp add: nov2_def)
  have n: "CNone = CStr [] \<or> (\<forall>s. CNone \<noteq> CStr s)" by simp
  from is_birthday_today_zone[of CNone nov2 0 "\<lparr>year = 1990, month = 11, day = 2\<rparr>"] n u
  have 1: "is_birthday_today nov2 0 \<lparr>year = 1990, month = 11, day = 2\<rparr> CNone" by simp
  from is_birthday_today_zone[of _ nov2 0 "\<lparr>year = 1990, month = 11, day = 3\<rparr>" "''Pacific/Auckland''"
      "\<lambda>t. \<lparr>year = 2024, month = 11, day = 3\<rparr>"] k
  have 2: "is_birthday_today nov2 0 \<lparr>year = 1990, month = 11, day = 3\<rparr> (CStr ''Pacific/Auckland'')" by simp
  from is_birthday_today_zone[of _ nov2 0 "\<lparr>year = 1990, month = 11, day = 2\<rparr>" "''Mars/Base''" _ ExternalError] m u
  have 3: "is_birthday_today nov2 0 \<lparr>year = 1990, month = 11, day = 2\<rparr> (CStr ''Mars/Base'')" by simp
  from 1 2 3 show ?thesis by blast
qed

lemma filtering_append:
  "filtering w conn y i (rs @ rs') =
     (case snd (filtering w conn y i rs) of
        Some e \<Rightarrow> filtering w conn y i rs
      | None \<Rightarrow>
          ((fst (fst (filtering w conn y i rs)) @ fst (fst (filtering w conn y (i + length rs) rs')),
            snd (fst (filtering w conn y i rs)) @ snd (fst (filtering w conn y (i + length rs) rs'))),
           snd (filtering w conn y (i + length rs) rs')))"
  by (induction rs arbitrary: i) (simp_all add: Let_def split: sum.splits option.splits)

lemma examine_unparsed:
  "parse_birthday w (col_birthday r) = Inr None \<Longrightarrow> examine w conn y t r = Inr ([], [])"
  by (simp add: examine_def Let_def)

lemma examine_raises:
  "parse_birthday w (col_birthday r) = Inl e \<Longrightarrow> examine w conn y t r = Inl e"
  by (simp add: examine_def Let_def)

text \<open>
  Claim C7. \<^verbatim>\<open>parse_birthday\<close> returns \<open>None\<close> for a null value and for a text that does
  not parse, and the date for a text that parses and for a structured date that
  \<^verbatim>\<open>pd.to_datetime\<close> accepts. On a structured date that \<^verbatim>\<open>pd.to_datetime\<close> rejects it
  raises, and so does the loop of \<^verbatim>\<open>main\<close> on that row: this is where the code leaves the
  claim. A row whose birthday parses to \<open>None\<close> adds nothing to \<^verbatim>\<open>to_send\<close> and logs
  nothing, whatever its other columns hold: when the rows before it raise nothing, the
  loop gathers what they give followed by what the rows after it give.
\<close>

theorem parse_birthday_cases:
  "parse_birthday w Null = Inr None
   \<and> (representable w d \<longrightarrow> parse_birthday w (Stamp d) = Inr (Some d))
   \<and> (\<not> representable w d \<longrightarrow>
        parse_birthday w (Stamp d) = Inl OutOfBoundsDatetime
        \<and> examine w conn y t (r\<lparr>col_birthday := Stamp d\<rparr>) = Inl OutOfBoundsDatetime)
   \<and> (to_datetime w s = Inr d \<longrightarrow> parse_birthday w (Value s) = Inr (Some d))
   \<and> (to_datetime w s = Inl e \<longrightarrow> parse_birthday w (Value s) = Inr None)
   \<and> (parse_birthday w (col_birthday r) = Inr None \<longrightarrow>
        examine w conn y t r = Inr ([], [])
        \<and> (snd (filtering w conn y i rs) = None \<longrightarrow>
             filtering w conn y i (rs @ r # rs') =
               ((fst (fst (filtering w conn y i rs)) @ fst (fst (filtering w conn y (Suc (i + length rs)) rs')),
                 snd (fst (filtering w conn y i rs)) @ snd (fst (filtering w conn y (Suc (i + length rs)) rs'))),
                snd (filtering w conn y (Suc (i + length rs)) rs'))))"
  by (simp add: parse_birthday_def filtering_append examine_unparsed examine_raises Let_def)

theorem parse_birthday_cases_witness:
  "parse_birthday nov2 (Stamp \<lparr>year = 3000, month = 11, day = 2\<rparr>) = Inl OutOfBoundsDatetime
   \<and> main twilio nov2 (Inr far_future) []
      = ([], [Log Starting, Uncaught OutOfBoundsDatetime])
   \<and> snd (fst (filtering nov2 [] 2024 0 ([greet ''Ann'' ''+1'' ''1990-11-02''] @ greet ''Bob'' ''+2'' ''soon''
        # [greet ''Cy'' ''+3'' ''1990-11-02''])))
     = [(''Ann'', ''+1'', CNone, CStr ''Hi {name}''), (''Cy'', ''+3'', CNone, CStr ''Hi {name}'')]"
proof -
  have o: "\<not> representable nov2 \<lparr>year = 3000, month = 11, day = 2\<rparr>" by code_simp
  have m: "main twilio nov2 (Inr far_future) []
      = ([], [Log Starting, Uncaught OutOfBoundsDatetime])"
    by code_simp
  have u: "parse_birthday nov2 (col_birthday (greet ''Bob'' ''+2'' ''soon'')) = Inr None" by code_simp
  have a: "filtering nov2 [] 2024 0 [greet ''Ann'' ''+1'' ''1990-11-02''] =
      (([], [(''Ann'', ''+1'', CNone, CStr ''Hi {name}'')]), None)"
    by code_simp
  have c: "filtering nov2 [] 2024 (Suc (0 + length [greet ''Ann'' ''+1'' ''1990-11-02''])) [greet ''Cy'' ''+3'' ''1990-11-02''] =
      (([], [(''Cy'', ''+3'', CNone, CStr ''Hi {name}'')]), None)"
    by code_simp
  from a have n: "snd (filtering nov2 [] 2024 0 [greet ''Ann'' ''+1'' ''1990-11-02'']) = None" by simp
  from parse_birthday_cases[where w = nov2 and d = "\<lparr>year = 3000, month = 11, day = 2\<rparr>"
      and r = "greet ''Bob'' ''+2'' ''soon''" and conn = "[]" and y = 2024 and i = 0
      and rs = "[greet ''Ann'' ''+1'' ''1990-11-02'']" and rs' = "[greet ''Cy'' ''+3'' ''1990-11-02'']"] o u n
  have "parse_birthday nov2 (Stamp \<lparr>year = 3000, month = 11, day = 2\<rparr>) = Inl OutOfBoundsDatetime"
    and "filtering nov2 [] 2024 0 ([greet ''Ann'' ''+1'' ''1990-11-02''] @ greet ''Bob'' ''+2'' ''soon''
        # [greet ''Cy'' ''+3'' ''1990-11-02'']) =
       ((fst (fst (filtering nov2 [] 2024 0 [greet ''Ann'' ''+1'' ''1990-11-02''])) @
         fst (fst (filtering nov2 [] 2024 (Suc (0 + length [greet ''Ann'' ''+1'' ''1990-11-02''])) [greet ''Cy'' ''+3'' ''1990-11-02''])),
         snd (fst (filtering nov2 [] 2024 0 [greet ''Ann'' ''+1'' ''1990-11-02''])) @
         snd (fst (filtering nov2 [] 2024 (Suc (0 + length [greet ''Ann'' ''+1'' ''1990-11-02''])) [greet ''Cy'' ''+3'' ''1990-11-02'']))),
        snd (filtering nov2 [] 2024 (Suc (0 + length [greet ''Ann'' ''+1'' ''1990-11-02''])) [greet ''Cy'' ''+3'' ''1990-11-02'']))"
    by blast+
  with m show ?thesis by (simp only: a c fst_conv snd_conv append.simps simp_thms)
qed

section \<open>Properties of the run\<close>

lemma attempted_append: "attempted (es @ es') = attempted es @ attempted es'"
  by (induction es) (simp_all add: attempted_def map_filter_simps split: option.splits)

lemma attempted_Nil: "attempted [] = []"
  by (simp add: attempted_def map_filter_simps)

lemma attempted_Cons:
  "attempted (e # es) = (case attempt_line e of None \<Rightarrow> attempted es | Some a \<Rightarrow> a # attempted es)"
  by (simp add: attempted_def map_filter_simps split: option.splits)

lemma attempted_generate: "attempted (fst (generate_personal_message cfg x name nts tpl)) = []"
  by (simp add: generate_personal_message_def attempted_def map_filter_simps Let_def
      split: cell.splits sum.splits)

lemma attempted_twilio: "attempted (fst (send_whatsapp_twilio cfg x phone msg)) = []"
  by (simp add: send_whatsapp_twilio_def attempted_def map_filter_simps Let_def
      split: sum.splits response.splits)

lemma attempted_meta: "attempted (fst (send_whatsapp_meta cfg x phone msg)) = []"
  by (simp add: send_whatsapp_meta_def attempted_def map_filter_simps Let_def
      split: sum.splits response.splits)

lemma attempted_send: "attempted (fst (send_whatsapp cfg x phone msg)) = []"
  by (simp add: send_whatsapp_def attempted_twilio attempted_meta)
     (simp add: attempted_def map_filter_simps)

lemma attempted_attempt: "attempted (fst (attempt cfg x c)) = []"
proof -
  obtain name phone nts tpl where c: "c = (name, phone, nts, tpl)" by (cases c)
  obtain es r where g: "generate_personal_message cfg x name nts tpl = (es, r)"
    by (cases "generate_personal_message cfg x name nts tpl")
  from attempted_generate[of cfg x name nts tpl] g have es: "attempted es = []" by simp
  show ?thesis
  proof (cases r)
    case (Inl e)
    with c g es show ?thesis by (simp add: attempt_def)
  next
    case (Inr msg)
    obtain es' r' where s: "send_whatsapp cfg x phone msg = (es', r')"
      by (cases "send_whatsapp cfg x phone msg")
    from attempted_send[of cfg x phone msg] s have "attempted es' = []" by simp
    with c g es Inr s show ?thesis
      by (cases r') (simp_all add: attempt_def attempted_append)
  qed
qed

lemma send_one_cases:
  "send_one cfg x y c st =
     (if delivered (snd (attempt cfg x c)) then
        ((record_send (fst st) (fst (snd c)) y (utcnow_iso x) (fst (projr (snd (attempt cfg x c)))), Suc (snd st)),
         fst (attempt cfg x c) @ [Log (Sent (fst c) (fst (snd c))), Sleep])
      else
        (st, fst (attempt cfg x c) @
             [Log (if isl (snd (attempt cfg x c)) then ExceptionSending (fst c) (fst (snd c))
                   else FailedSend (fst c) (fst (snd c))), Sleep]))"
proof -
  obtain name phone nts tpl where c: "c = (name, phone, nts, tpl)" by (cases c)
  obtain es r where a: "attempt cfg x c = (es, r)" by (cases "attempt cfg x c")
  show ?thesis
  proof (cases r)
    case (Inl e)
    with a c show ?thesis by (simp add: send_one_def)
  next
    case (Inr ms)
    obtain msg success where "ms = (msg, success)" by (cases ms)
    with Inr a c show ?thesis by (simp add: send_one_def)
  qed
qed

lemma attempted_send_one: "attempted (snd (send_one cfg x y c st)) = [label c]"
  by (simp add: send_one_cases attempted_append attempted_attempt label_def)
     (simp add: attempted_def map_filter_simps)

lemma attempted_sending: "attempted (snd (sending cfg xs y k cs st)) = map label cs"
  by (induction cs arbitrary: k st) (simp_all add: attempted_Nil attempted_append attempted_send_one Let_def)











lemma examine_candidates:
  "examine w conn y t r = Inr one \<Longrightarrow> c \<in> set (snd one) \<Longrightarrow> \<not> already_sent conn (fst (snd c)) y"
  by (auto simp: examine_def Let_def split: sum.splits option.splits if_splits)

lemma filtering_candidates:
  "c \<in> set (snd (fst (filtering w conn y i rs))) \<Longrightarrow> \<not> already_sent conn (fst (snd c)) y"
  by (induction rs arbitrary: i)
     (auto simp: Let_def split: sum.splits dest: examine_candidates)

lemma examine_already_sent:
  assumes "parse_birthday w (col_birthday r) = Inr (Some b)"
    and "is_birthday_today w t b (col_timezone r)"
    and "already_sent conn (py_strip (py_str (col_phone r))) y"
  shows "examine w conn y t r =
           Inr ([Log (AlreadySent (py_strip (py_str (col_name r))) (py_strip (py_str (col_phone r))))], [])"
  using assms by (simp add: examine_def Let_def)

lemma attempted_examine: "examine w conn y t r = Inr one \<Longrightarrow> attempted (fst one) = []"
  by (auto simp: examine_def Let_def attempted_def map_filter_simps
      split: sum.splits option.splits if_splits)

lemma attempted_filtering: "attempted (fst (fst (filtering w conn y i rs))) = []"
  by (induction rs arbitrary: i)
     (auto simp: Let_def attempted_Nil attempted_append attempted_examine split: sum.splits)

lemma send_one_select_other:
  "p \<noteq> fst (snd c) \<Longrightarrow>
   select_sent (fst (fst (send_one cfg x y c st))) p z = select_sent (fst st) p z"
  by (simp add: send_one_cases select_record_send_other)

lemma sending_select_other:
  "p \<notin> (\<lambda>c. fst (snd c)) ` set cs \<Longrightarrow>
   select_sent (fst (fst (sending cfg xs y k cs st))) p z = select_sent (fst st) p z"
  by (induction cs arbitrary: k st) (simp_all add: Let_def send_one_select_other)



lemma set_slice_to: "set (slice_to n xs) \<subseteq> set xs"
  by (auto simp: slice_to_def dest: in_set_takeD)

lemma required_columns:
  "{''name'', ''phone'', ''birthday''} \<subseteq> set (columns df) \<Longrightarrow>
   find (\<lambda>r. r \<notin> set (columns df)) [''name'', ''phone'', ''birthday''] = None"
  by simp

text \<open>The run when the sheet was read, has its columns and the first loop raised nothing.\<close>

lemma main_completes:
  assumes "{''name'', ''phone'', ''birthday''} \<subseteq> set (columns df)"
    and "snd (filtering w db (today_year w) 0 (rows df)) = None"
  shows "main cfg w (Inr df) db =
     (fst (fst (sending cfg (ext_at w) (today_year w) 0
         (slice_to (max_messages_per_run cfg) (snd (fst (filtering w db (today_year w) 0 (rows df))))) (db, 0))),
      [Log Starting] @ fst (fst (filtering w db (today_year w) 0 (rows df)))
        @ [Log (Found (length (snd (fst (filtering w db (today_year w) 0 (rows df))))))]
        @ snd (sending cfg (ext_at w) (today_year w) 0
            (slice_to (max_messages_per_run cfg) (snd (fst (filtering w db (today_year w) 0 (rows df))))) (db, 0))
        @ [Log (RunComplete (snd (fst (sending cfg (ext_at w) (today_year w) 0
            (slice_to (max_messages_per_run cfg) (snd (fst (filtering w db (today_year w) 0 (rows df))))) (db, 0)))))])"
  using required_columns[OF assms(1)] assms(2)
  by (simp add: main_def init_db_def Let_def del: find.simps)

text \<open>The run in every other case: nothing is sent and the store is left as it was.\<close>

lemma main_stops:
  assumes "\<not> (\<exists>df. loaded = Inr df \<and> {''name'', ''phone'', ''birthday''} \<subseteq> set (columns df)
              \<and> snd (filtering w db (today_year w) 0 (rows df)) = None)"
  shows "fst (main cfg w loaded db) = db \<and> attempted (snd (main cfg w loaded db)) = []"
proof (cases loaded)
  case (Inl e)
  then show ?thesis by (simp add: main_def init_db_def attempted_def map_filter_simps)
next
  case (Inr df)
  show ?thesis
  proof (cases "find (\<lambda>r. r \<notin> set (columns df)) [''name'', ''phone'', ''birthday'']")
    case (Some r)
    with Inr show ?thesis by (simp add: main_def init_db_def attempted_def map_filter_simps)
  next
    case None
    then have "{''name'', ''phone'', ''birthday''} \<subseteq> set (columns df)"
      by (auto split: if_splits)
    with assms Inr obtain e where "snd (filtering w db (today_year w) 0 (rows df)) = Some e"
      by auto
    with None Inr show ?thesis
      by (simp add: main_def init_db_def Let_def attempted_Cons attempted_append attempted_filtering
          attempted_Nil del: find.simps)
  qed
qed

lemma main_attempted:
  assumes "{''name'', ''phone'', ''birthday''} \<subseteq> set (columns df)"
    and "snd (filtering w db (today_year w) 0 (rows df)) = None"
  shows "attempted (snd (main cfg w (Inr df) db)) =
           map label (slice_to (max_messages_per_run cfg) (snd (fst (filtering w db (today_year w) 0 (rows df)))))"
  by (simp add: main_completes[OF assms] attempted_append attempted_Cons attempted_Nil attempted_sending
      attempted_filtering)

lemma main_attempted_subset:
  "set (attempted (snd (main cfg w (Inr df) db)))
     \<subseteq> label ` set (snd (fst (filtering w db (today_year w) 0 (rows df))))"
proof (cases "{''name'', ''phone'', ''birthday''} \<subseteq> set (columns df)
              \<and> snd (filtering w db (today_year w) 0 (rows df)) = None")
  case True
  then have "attempted (snd (main cfg w (Inr df) db)) =
      map label (slice_to (max_messages_per_run cfg) (snd (fst (filtering w db (today_year w) 0 (rows df)))))"
    by (simp add: main_attempted)
  then show ?thesis using set_slice_to by fastforce
next
  case False
  then have "attempted (snd (main cfg w (Inr df) db)) = []"
    by (intro main_stops[THEN conjunct2]) auto
  then show ?thesis by simp
qed

lemma main_select_other:
  assumes "p \<notin> (\<lambda>c. fst (snd c)) ` set (snd (fst (filtering w db (today_year w) 0 (rows df))))"
  shows "select_sent (fst (main cfg w (Inr df) db)) p z = select_sent db p z"
proof (cases "{''name'', ''phone'', ''birthday''} \<subseteq> set (columns df)
              \<and> snd (filtering w db (today_year w) 0 (rows df)) = None")
  case True
  from assms set_slice_to[of "max_messages_per_run cfg" "snd (fst (filtering w db (today_year w) 0 (rows df)))"]
  have "p \<notin> (\<lambda>c. fst (snd c)) ` set (slice_to (max_messages_per_run cfg)
      (snd (fst (filtering w db (today_year w) 0 (rows df)))))"
    by auto
  with True show ?thesis by (simp add: main_completes sending_select_other)
next
  case False
  then have "fst (main cfg w (Inr df) db) = db"
    by (intro main_stops[THEN conjunct1]) auto
  then show ?thesis by simp
qed

text \<open>
  Claim C1. A row whose birthday matches today and whose phone has a row in the store for
  the year that UTC shows when the run starts is logged as already sent and adds nothing
  to \<^verbatim>\<open>to_send\<close>: no candidate has its phone, no attempt of the run is for its phone, and
  the run leaves the rows of the store for that phone and year as they were. The year of
  the key is read from UTC, whatever the time zone of the row is.
\<close>

theorem already_sent_excluded:
  assumes "i < length (rows df)"
    and "parse_birthday w (col_birthday (rows df ! i)) = Inr (Some b)"
    and "is_birthday_today w (clock w (Suc i)) b (col_timezone (rows df ! i))"
    and "already_sent db (py_strip (py_str (col_phone (rows df ! i)))) (year (utc w (clock w 0)))"
  shows "examine w db (today_year w) (clock w (Suc i)) (rows df ! i) =
           Inr ([Log (AlreadySent (py_strip (py_str (col_name (rows df ! i))))
                   (py_strip (py_str (col_phone (rows df ! i)))))], [])
     \<and> py_strip (py_str (col_phone (rows df ! i)))
          \<notin> (\<lambda>c. fst (snd c)) ` set (snd (fst (filtering w db (today_year w) 0 (rows df))))
     \<and> py_strip (py_str (col_phone (rows df ! i)))
          \<notin> snd ` set (attempted (snd (main cfg w (Inr df) db)))
     \<and> select_sent (fst (main cfg w (Inr df) db)) (py_strip (py_str (col_phone (rows df ! i)))) (today_year w)
          = select_sent db (py_strip (py_str (col_phone (rows df ! i)))) (today_year w)"
proof -
  let ?p = "py_strip (py_str (col_phone (rows df ! i)))"
  let ?cs = "snd (fst (filtering w db (today_year w) 0 (rows df)))"
  from assms(4) have sent: "already_sent db ?p (today_year w)" by (simp add: today_year_def)
  have 1: "examine w db (today_year w) (clock w (Suc i)) (rows df ! i) =
           Inr ([Log (AlreadySent (py_strip (py_str (col_name (rows df ! i)))) ?p)], [])"
    using assms(2,3) sent by (rule examine_already_sent)
  have 2: "?p \<notin> (\<lambda>c. fst (snd c)) ` set ?cs"
    using sent by (auto dest: filtering_candidates)
  have 3: "?p \<notin> snd ` set (attempted (snd (main cfg w (Inr df) db)))"
  proof
    assume "?p \<in> snd ` set (attempted (snd (main cfg w (Inr df) db)))"
    then obtain a where "a \<in> set (attempted (snd (main cfg w (Inr df) db)))" and "snd a = ?p" by auto
    with main_attempted_subset[of cfg w df db] obtain c where "c \<in> set ?cs" and "label c = a"
      by auto
    from \<open>c \<in> set ?cs\<close> have "fst (snd c) \<in> (\<lambda>c. fst (snd c)) ` set ?cs" by (rule imageI)
    moreover from \<open>label c = a\<close> \<open>snd a = ?p\<close> have "fst (snd c) = ?p" by (auto simp: label_def)
    ultimately show False using 2 by simp
  qed
  have 4: "select_sent (fst (main cfg w (Inr df) db)) ?p (today_year w) = select_sent db ?p (today_year w)"
    using 2 by (simp add: main_select_other)
  from 1 2 3 4 show ?thesis by blast
qed

theorem already_sent_excluded_witness:
  "''+1555'' \<notin> snd ` set (attempted (snd (main twilio new_years_eve (Inr abroad)
        [(''+1555'', 2024, ''2024-01-01T09:00:00'', ''Hi Ann'')])))
   \<and> select_sent (fst (main twilio new_years_eve (Inr abroad)
        [(''+1555'', 2024, ''2024-01-01T09:00:00'', ''Hi Ann'')])) ''+1555'' 2024
      = [(''+1555'', 2024, ''2024-01-01T09:00:00'', ''Hi Ann'')]"
proof -
  let ?db = "[(''+1555'', 2024, ''2024-01-01T09:00:00'', ''Hi Ann'')]"
  have i: "0 < length (rows abroad)" by code_simp
  have b: "parse_birthday new_years_eve (col_birthday (rows abroad ! 0)) =
      Inr (Some \<lparr>year = 1990, month = 1, day = 1\<rparr>)"
    by code_simp
  have t: "is_birthday_today new_years_eve (clock new_years_eve (Suc 0)) \<lparr>year = 1990, month = 1, day = 1\<rparr>
      (col_timezone (rows abroad ! 0))"
    by code_simp
  have p: "py_strip (py_str (col_phone (rows abroad ! 0))) = ''+1555''" by code_simp
  have y: "year (utc new_years_eve (clock new_years_eve 0)) = 2024" by code_simp
  have s: "already_sent ?db (py_strip (py_str (col_phone (rows abroad ! 0))))
      (year (utc new_years_eve (clock new_years_eve 0)))"
    unfolding p y by code_simp
  have d: "select_sent ?db ''+1555'' 2024 = ?db" by code_simp
  from already_sent_excluded[OF i b t s, of twilio] show ?thesis
    unfolding p today_year_def y d by blast
qed





section \<open>Whole runs\<close>

text \<open>
  Extra X1. The scenario of the specification: one row for Bob, phone \<^verbatim>\<open>+447000\<close>, birthday
  \<^verbatim>\<open>1990-11-02\<close>, the other cells empty, a run on the second of November, no provider for
  generated text. The run makes one request to the configured sender, with a builtin
  greeting that holds the name, and writes one row for the phone and the UTC year.
\<close>

theorem scenario_bob:
  "main twilio (nov2\<lparr>ext_at := (\<lambda>k. accepting)\<rparr>) (Inr bob) [] =
     ([(''+447000'', 2024, ''2024-11-02T08:00:00'',
        ''Many happy returns, Bob! Hope you have a wonderful birthday.'')],
      [Log Starting, Log (Found 1), Log BuiltinTemplate,
       Http (TwilioPost ''https://api.twilio.com/2010-04-01/Accounts/AC1/Messages.json''
               ''whatsapp:+1415'' ''whatsapp:+447000''
               ''Many happy returns, Bob! Hope you have a wonderful birthday.'' ''AC1'' ''tok''),
       Log (Sent ''Bob'' ''+447000''), Sleep, Log (RunComplete 1)])"
  by code_simp

text \<open>
  Extra X2. A run that cannot read the sheet logs the failure and stops; a run that
  misses a required column logs the first such column and stops; and whenever the run
  does not get past its first loop (also when a birthday raises there) it sends nothing,
  attempts nothing and leaves the store as it was.
\<close>

theorem run_stops_early:
  "main cfg w (Inl e) db = (db, [Log Starting, Log LoadFailed])
   \<and> (find (\<lambda>r. r \<notin> set (columns df)) [''name'', ''phone'', ''birthday''] = Some c \<longrightarrow>
        main cfg w (Inr df) db = (db, [Log Starting, Log (MissingColumn c)]))
   \<and> (\<not> (\<exists>df. loaded = Inr df \<and> {''name'', ''phone'', ''birthday''} \<subseteq> set (columns df)
              \<and> snd (filtering w db (today_year w) 0 (rows df)) = None) \<longrightarrow>
        fst (main cfg w loaded db) = db \<and> attempted (snd (main cfg w loaded db)) = []
        \<and> requests_made (snd (main cfg w loaded db)) = [])"
proof -
  have 1: "main cfg w (Inl e) db = (db, [Log Starting, Log LoadFailed])"
    by (simp add: main_def init_db_def)
  have 2: "main cfg w (Inr df) db = (db, [Log Starting, Log (MissingColumn c)])"
    if "find (\<lambda>r. r \<notin> set (columns df)) [''name'', ''phone'', ''birthday''] = Some c"
    using that by (simp add: main_def init_db_def del: find.simps)
  have r: "requests_made (fst (fst (filtering w db y i rs))) = []" for y i rs
    by (induction rs arbitrary: i)
       (auto simp: Let_def requests_made_def map_filter_simps examine_def
          split: sum.splits option.splits if_splits)
  have 3: "fst (main cfg w loaded db) = db \<and> attempted (snd (main cfg w loaded db)) = []
        \<and> requests_made (snd (main cfg w loaded db)) = []"
    if n: "\<not> (\<exists>df. loaded = Inr df \<and> {''name'', ''phone'', ''birthday''} \<subseteq> set (columns df)
              \<and> snd (filtering w db (today_year w) 0 (rows df)) = None)"
  proof -
    have "requests_made (snd (main cfg w loaded db)) = []"
    proof (cases loaded)
      case (Inl e)
      then show ?thesis by (simp add: main_def init_db_def requests_made_def map_filter_simps)
    next
      case (Inr df)
      show ?thesis
      proof (cases "find (\<lambda>r. r \<notin> set (columns df)) [''name'', ''phone'', ''birthday'']")
        case (Some c)
        with Inr show ?thesis by (simp add: main_def init_db_def requests_made_def map_filter_simps)
      next
        case None
        then have "{''name'', ''phone'', ''birthday''} \<subseteq> set (columns df)"
          by (auto split: if_splits)
        with n Inr obtain e where "snd (filtering w db (today_year w) 0 (rows df)) = Some e"
          by auto
        moreover have "requests_made (a @ [Uncaught e]) = requests_made a" for a e
          by (induction a) (simp_all add: requests_made_def map_filter_simps split: option.splits)
        moreover have "requests_made (Log l # a) = requests_made a" for l a
          by (simp add: requests_made_def map_filter_simps)
        ultimately show ?thesis using None Inr
          by (simp add: main_def init_db_def Let_def r del: find.simps)
      qed
    qed
    with main_stops[OF n, of cfg] show ?thesis by simp
  qed
  from 1 2 3 show ?thesis by blast
qed

theorem run_stops_early_witness:
  "main twilio nov2 (Inr (three\<lparr>columns := [''name'', ''birthday'']\<rparr>)) [] =
     ([], [Log Starting, Log (MissingColumn ''phone'')])
   \<and> requests_made (snd (main twilio nov2 (Inr far_future) [])) = []"
proof -
  have f: "find (\<lambda>r. r \<notin> set (columns (three\<lparr>columns := [''name'', ''birthday'']\<rparr>)))
      [''name'', ''phone'', ''birthday''] = Some ''phone''"
    by code_simp
  have y: "today_year nov2 = 2024" by code_simp
  have c: "snd (filtering nov2 [] 2024 0 (rows far_future)) = Some OutOfBoundsDatetime" by code_simp
  have n: "\<not> (\<exists>df. Inr far_future = (Inr df :: pyexc + frame)
      \<and> {''name'', ''phone'', ''birthday''} \<subseteq> set (columns df)
      \<and> snd (filtering nov2 [] (today_year nov2) 0 (rows df)) = None)"
    unfolding y using c by simp
  from run_stops_early[of twilio nov2 _ "[]" "three\<lparr>columns := [''name'', ''birthday'']\<rparr>" "''phone''" "Inr far_future"]
    f n show ?thesis by blast
qed

end
